theory Spec2Isabelle
  imports Main "HOL-Library.Word"
begin

unbundle bit_operations_syntax

section \<open>Scalar expressions of the rewriter\<close>

text \<open>
  The expression rewriter of \<^verbatim>\<open>planner/core/expression_rewriter.go\<close> builds values of
  the interface \<^verbatim>\<open>expression.Expression\<close>. The variants the rewriter distinguishes
  (by type assertion) are columns, correlated columns, constants and scalar functions;
  \<open>NilExpr\<close> is Go's nil interface value, which some helpers return.
\<close>

datatype typeCode =
  TypeUnspecified | TypeTiny | TypeLonglong | TypeNewDecimal | TypeVarchar | TypeNull

record fieldType =
  Tp :: typeCode
  NotNullFlag :: bool

datatype datum = DNull | DInt int

record column =
  ColName :: string
  UniqueID :: nat
  RetType :: fieldType
  IsReferenced :: bool
  InOperand :: bool

datatype expression =
    Column column
  | CorrelatedColumn column
  | Constant datum fieldType
  | ScalarFunction string fieldType "expression list"
  | NilExpr

datatype error =
    ErrOperandColumns nat
  | ErrIncorrectParameterCount string
  | ErrContextLen nat
  | ErrUnknownCompareType
  | ErrNullEQQuantifier
  | ErrBuildSubquery
  | PanicIndexOutOfRange

text \<open>\<^verbatim>\<open>types.NewFieldType(tp)\<close>: a field type of the given code with no flag set.\<close>

definition NewFieldType :: "typeCode \<Rightarrow> fieldType" where
  "NewFieldType tp = \<lparr>Tp = tp, NotNullFlag = False\<rparr>"

text \<open>The function names of \<^verbatim>\<open>parser/ast\<close> and \<^verbatim>\<open>opcode.Op.String()\<close> the rewriter uses.\<close>

definition EQ :: string where "EQ = ''eq''"
definition NE :: string where "NE = ''ne''"
definition NullEQ :: string where "NullEQ = ''nulleq''"
definition LT :: string where "LT = ''lt''"
definition LE :: string where "LE = ''le''"
definition GT :: string where "GT = ''gt''"
definition GE :: string where "GE = ''ge''"
definition LogicAnd :: string where "LogicAnd = ''and''"
definition LogicOr :: string where "LogicOr = ''or''"
definition UnaryNot :: string where "UnaryNot = ''not''"
definition IfFunc :: string where "IfFunc = ''if''"
definition IsNull :: string where "IsNull = ''isnull''"
definition RowFunc :: string where "RowFunc = ''row''"
definition Ifnull :: string where "Ifnull = ''ifnull''"
definition In :: string where "In = ''in''"
definition AggFuncMax :: string where "AggFuncMax = ''max''"
definition AggFuncMin :: string where "AggFuncMin = ''min''"
definition AggFuncSum :: string where "AggFuncSum = ''sum''"
definition AggFuncCount :: string where "AggFuncCount = ''count''"
definition AggFuncFirstRow :: string where "AggFuncFirstRow = ''firstrow''"

lemmas funcName_defs =
  EQ_def NE_def NullEQ_def LT_def LE_def GT_def GE_def LogicAnd_def LogicOr_def
  UnaryNot_def IfFunc_def IsNull_def RowFunc_def Ifnull_def In_def
  AggFuncMax_def AggFuncMin_def AggFuncSum_def AggFuncCount_def AggFuncFirstRow_def

text \<open>The constants \<^verbatim>\<open>expression.Null\<close>, \<^verbatim>\<open>expression.Zero\<close> and \<^verbatim>\<open>expression.One\<close>.\<close>

definition Null :: expression where
  "Null = Constant DNull (NewFieldType TypeTiny)"

definition Zero :: expression where
  "Zero = Constant (DInt 0) (NewFieldType TypeTiny)"

definition One :: expression where
  "One = Constant (DInt 1) (NewFieldType TypeTiny)"

text \<open>
  Modelled from the spec: \<^verbatim>\<open>expression.NewFunctionInternal\<close>, \<^verbatim>\<open>expression.NewFunction\<close>
  and \<^verbatim>\<open>expression.NewFunctionBase\<close> are not under src/. The spec has them build a
  scalar function call node from a function name, a result type and the operands. The
  rewriter's \<^verbatim>\<open>newFunction\<close> chooses between the last two by \<^verbatim>\<open>disableFoldCounter\<close>;
  both build the same node here, so the counter is no argument of the model. Constant
  folding, which replaces a node by a constant of the same value, is not modelled.
\<close>

definition NewFunctionInternal :: "string \<Rightarrow> fieldType \<Rightarrow> expression list \<Rightarrow> expression" where
  "NewFunctionInternal funcName retType args = ScalarFunction funcName retType args"

definition newFunction :: "string \<Rightarrow> fieldType \<Rightarrow> expression list \<Rightarrow> error + expression" where
  "newFunction funcName retType args = Inr (ScalarFunction funcName retType args)"

text \<open>\<^verbatim>\<open>Expression.GetType()\<close>.\<close>

fun GetType :: "expression \<Rightarrow> fieldType" where
  "GetType (Column c) = RetType c"
| "GetType (CorrelatedColumn c) = RetType c"
| "GetType (Constant d tp) = tp"
| "GetType (ScalarFunction f tp args) = tp"
| "GetType NilExpr = NewFieldType TypeUnspecified"

text \<open>
  Modelled from the spec: \<^verbatim>\<open>expression.GetRowLen\<close>, \<^verbatim>\<open>expression.GetFuncArg\<close> and
  \<^verbatim>\<open>expression.PopRowFirstArg\<close> are not under src/. A row-valued expression (a tuple of
  width n) is a call of the function \<^verbatim>\<open>row\<close> with n operands; every other expression has
  width 1. \<open>GetFuncArg\<close> reads one element of a row (nil on anything else, an index
  out of range panics), \<open>PopRowFirstArg\<close> gives the remaining elements: the second
  element itself for a row of width 2, else the row of the tail.
\<close>

fun GetRowLen :: "expression \<Rightarrow> nat" where
  "GetRowLen (ScalarFunction f tp args) = (if f = RowFunc then length args else 1)"
| "GetRowLen e = 1"

fun GetFuncArg :: "expression \<Rightarrow> nat \<Rightarrow> error + expression" where
  "GetFuncArg (ScalarFunction f tp args) idx =
     (if f = RowFunc then (if idx < length args then Inr (args ! idx) else Inl PanicIndexOutOfRange)
      else Inr NilExpr)"
| "GetFuncArg e idx = Inr NilExpr"

fun PopRowFirstArg :: "expression \<Rightarrow> error + expression" where
  "PopRowFirstArg (ScalarFunction f tp args) =
     (if f = RowFunc then
        (if length args = 2 then Inr (args ! 1)
         else if args = [] then Inl PanicIndexOutOfRange
         else newFunction RowFunc tp (tl args))
      else Inr NilExpr)"
| "PopRowFirstArg e = Inr NilExpr"

text \<open>
  Modelled from the spec: \<^verbatim>\<open>expression.ComposeCNFCondition\<close> and
  \<^verbatim>\<open>expression.ComposeDNFCondition\<close> are not under src/. The spec has them build the AND,
  respectively the OR, of the given conditions. The binary nodes are nested by halving
  the list; no condition gives nil and a single condition is returned as it is.
\<close>

function composeConditionWithBinaryOp :: "expression list \<Rightarrow> string \<Rightarrow> expression" where
  "composeConditionWithBinaryOp conditions funcName =
     (if length conditions = 0 then NilExpr
      else if length conditions = 1 then hd conditions
      else NewFunctionInternal funcName (NewFieldType TypeTiny)
             [composeConditionWithBinaryOp (take (length conditions div 2) conditions) funcName,
              composeConditionWithBinaryOp (drop (length conditions div 2) conditions) funcName])"
  by pat_completeness auto
termination
proof (relation "measure (\<lambda>(conditions, funcName). length conditions)", goal_cases)
  case 1
  show ?case by simp
next
  case (2 conditions funcName)
  then show ?case by (cases conditions) auto
next
  case (3 conditions funcName)
  then have "length conditions \<noteq> 0" and "length conditions \<noteq> 1" by auto
  then have "2 \<le> length conditions" by arith
  then show ?case by simp
qed

declare composeConditionWithBinaryOp.simps [simp del]

definition ComposeCNFCondition :: "expression list \<Rightarrow> expression" where
  "ComposeCNFCondition conditions = composeConditionWithBinaryOp conditions LogicAnd"

definition ComposeDNFCondition :: "expression list \<Rightarrow> expression" where
  "ComposeDNFCondition conditions = composeConditionWithBinaryOp conditions LogicOr"

subsection \<open>constructBinaryOpFunction\<close>

text \<open>
  The loop of the EQ/NE/NullEQ case returns at the first element whose construction
  fails; \<open>collectFuncs\<close> is that early return over the list of element results.
\<close>

fun collectFuncs :: "(error + expression) list \<Rightarrow> error + expression list" where
  "collectFuncs [] = Inr []"
| "collectFuncs (Inl e # rest) = Inl e"
| "collectFuncs (Inr f # rest) =
     (case collectFuncs rest of Inl e \<Rightarrow> Inl e | Inr fs \<Rightarrow> Inr (f # fs))"

lemma size_row_arg:
  "x \<in> set args \<Longrightarrow> size x < size (ScalarFunction f tp args)"
  by (induction args) auto

lemma GetRowLen_not_1_row:
  assumes "GetRowLen l \<noteq> Suc 0"
  obtains tp args where "l = ScalarFunction RowFunc tp args" and "length args \<noteq> Suc 0"
  using assms by (cases l) (auto split: if_splits)

lemma GetFuncArg_size:
  assumes "GetRowLen l \<noteq> Suc 0" and "GetFuncArg l i = Inr x"
  shows "size x < size l"
proof -
  from assms(1) obtain tp args where l: "l = ScalarFunction RowFunc tp args"
    by (rule GetRowLen_not_1_row)
  with assms(2) have "i < length args" and "x = args ! i"
    by (auto split: if_splits)
  then have "x \<in> set args" by simp
  with l show ?thesis by (simp only: size_row_arg)
qed

lemma PopRowFirstArg_size:
  assumes a: "GetRowLen l \<noteq> Suc 0" and b: "PopRowFirstArg l = Inr l'"
  shows "size l' < size l"
proof -
  from a obtain tp args where l: "l = ScalarFunction RowFunc tp args" and n: "length args \<noteq> Suc 0"
    by (rule GetRowLen_not_1_row)
  show ?thesis
  proof (cases "length args = 2")
    case True
    then have "size (args ! 1) < size (ScalarFunction RowFunc tp args)"
      by (intro size_row_arg) simp
    moreover from b l True have "l' = args ! 1" by simp
    ultimately show ?thesis using l by simp
  next
    case False
    with b l n obtain a as where "args = a # as" and "l' = ScalarFunction RowFunc tp as"
      by (cases args) (auto simp: newFunction_def split: if_splits)
    with l show ?thesis by simp
  qed
qed

function constructBinaryOpFunction :: "expression \<Rightarrow> expression \<Rightarrow> string \<Rightarrow> error + expression" where
  "constructBinaryOpFunction l r op =
     (if GetRowLen l = 1 \<and> GetRowLen r = 1 then newFunction op (NewFieldType TypeTiny) [l, r]
      else if GetRowLen r \<noteq> GetRowLen l then Inl (ErrOperandColumns (GetRowLen l))
      else if op = EQ \<or> op = NE \<or> op = NullEQ then
        (case collectFuncs
                (map (\<lambda>i. (case GetFuncArg l i of Inl e \<Rightarrow> Inl e | Inr li \<Rightarrow>
                          (case GetFuncArg r i of Inl e \<Rightarrow> Inl e | Inr ri \<Rightarrow>
                             constructBinaryOpFunction li ri op)))
                     [0..<GetRowLen l]) of
           Inl e \<Rightarrow> Inl e
         | Inr funcs \<Rightarrow>
             (if op = NE then Inr (ComposeDNFCondition funcs) else Inr (ComposeCNFCondition funcs)))
      else
        (case GetFuncArg l 0 of Inl e \<Rightarrow> Inl e | Inr larg0 \<Rightarrow>
        (case GetFuncArg r 0 of Inl e \<Rightarrow> Inl e | Inr rarg0 \<Rightarrow>
        (case PopRowFirstArg l of Inl e \<Rightarrow> Inl e | Inr l' \<Rightarrow>
        (case PopRowFirstArg r of Inl e \<Rightarrow> Inl e | Inr r' \<Rightarrow>
        (case constructBinaryOpFunction l' r' op of Inl e \<Rightarrow> Inl e | Inr expr4 \<Rightarrow>
        (case newFunction IfFunc (NewFieldType TypeTiny)
                [NewFunctionInternal IsNull (NewFieldType TypeTiny)
                   [NewFunctionInternal NE (NewFieldType TypeTiny) [larg0, rarg0]],
                 Null, expr4] of Inl e \<Rightarrow> Inl e | Inr expr5 \<Rightarrow>
           newFunction IfFunc (NewFieldType TypeTiny)
             [NewFunctionInternal NE (NewFieldType TypeTiny) [larg0, rarg0],
              NewFunctionInternal op (NewFieldType TypeTiny) [larg0, rarg0],
              expr5])))))))"
  by pat_completeness auto
termination
proof (relation "measure (\<lambda>(l, r, op). size l)", goal_cases)
  case 1
  show ?case by simp
next
  case (2 l r op i li ri)
  then have "GetRowLen l \<noteq> Suc 0" and "GetFuncArg l i = Inr li" by auto
  then show ?case by (simp add: GetFuncArg_size)
next
  case (3 l r op larg0 rarg0 l' r')
  then have "GetRowLen l \<noteq> Suc 0" and "PopRowFirstArg l = Inr l'" by auto
  then show ?case by (simp add: PopRowFirstArg_size)
qed

declare constructBinaryOpFunction.simps [simp del]


section \<open>Logical plans and the rewriter's state\<close>

datatype joinType =
  InnerJoin | LeftOuterJoin | SemiJoin | AntiSemiJoin | LeftOuterSemiJoin | AntiLeftOuterSemiJoin

text \<open>\<^verbatim>\<open>aggregation.AggFuncDesc\<close>: an aggregate call of a \<^verbatim>\<open>LogicalAggregation\<close>.\<close>

record aggFuncDesc =
  Name :: string
  Args :: "expression list"
  HasDistinct :: bool
  RetTp :: fieldType

text \<open>
  The plans the rewriter builds or splices in. \<open>ResultSetNode\<close> stands for a plan the
  rewriter receives ready-made (the current plan of the statement, or the plan
  \<^verbatim>\<open>buildResultSetNode\<close> returns for a subquery): the rewriter reads only its output
  schema and the correlated columns it references, which are its two fields.
  \<open>LogicalAggregation\<close> carries its aggregate calls, group-by items, schema and child;
  \<open>LogicalJoin\<close> and \<open>LogicalApply\<close> carry the join type, the two children, the schema
  and the attached conditions; \<open>LogicalProjection\<close> its expressions, schema and child.
\<close>

datatype logicalPlan =
    ResultSetNode "column list" "column list"
  | LogicalAggregation "aggFuncDesc list" "expression list" "column list" logicalPlan
  | LogicalJoin joinType logicalPlan logicalPlan "column list" "expression list"
  | LogicalApply joinType logicalPlan logicalPlan "column list" "expression list"
  | LogicalProjection "expression list" "column list" logicalPlan

fun Schema :: "logicalPlan \<Rightarrow> column list" where
  "Schema (ResultSetNode sch cor) = sch"
| "Schema (LogicalAggregation fs gs sch child) = sch"
| "Schema (LogicalJoin jt l r sch conds) = sch"
| "Schema (LogicalApply jt l r sch conds) = sch"
| "Schema (LogicalProjection exprs sch child) = sch"

text \<open>
  \<^verbatim>\<open>*LogicalAggregation\<close> as the rewriter holds it while it adds aggregate calls and
  schema columns to it; \<open>aggPlan\<close> is its use as a \<^verbatim>\<open>LogicalPlan\<close>.
\<close>

record logicalAggregation =
  AggFuncs :: "aggFuncDesc list"
  GroupByItems :: "expression list"
  agg_schema :: "column list"
  agg_child :: logicalPlan

definition aggPlan :: "logicalAggregation \<Rightarrow> logicalPlan" where
  "aggPlan a = LogicalAggregation (AggFuncs a) (GroupByItems a) (agg_schema a) (agg_child a)"

text \<open>The optimisation flags of the plan builder that the rewriter switches on.\<close>

datatype optFlag =
    flagEliminateAgg | flagEliminateProjection | flagJoinReOrder
  | flagPredicatePushDown | flagBuildKeyInfo | flagDecorrelate | flagPushDownAgg

text \<open>
  The state one rewrite works on: the fields of \<^verbatim>\<open>expressionRewriter\<close> that the modelled
  functions read or write (\<open>er_\<close>), the plan builder's flags (\<open>b_\<close>), and of the session
  the switch \<^verbatim>\<open>AllowInSubqToJoinAndAgg\<close> and the counter behind
  \<^verbatim>\<open>AllocPlanColumnID\<close> (\<open>ctx_\<close>). An unset \<^verbatim>\<open>er.err\<close> is \<open>None\<close>.
\<close>

record rewriter =
  er_ctxStack :: "expression list"
  er_p :: logicalPlan
  er_schema :: "column list"
  er_err :: "error option"
  er_asScalar :: bool
  b_optFlag :: "optFlag set"
  ctx_AllowInSubqToJoinAndAgg :: bool
  ctx_PlanColumnID :: nat

text \<open>
  Modelled from the spec: the helpers of the packages \<^verbatim>\<open>expression\<close>, \<^verbatim>\<open>aggregation\<close>
  and of the plan builder that follow are not under src/; the spec takes them as black
  boxes that return plan fragments. Each is modelled by the node it returns, holding
  the arguments it was given.
  \<^item> \<open>NewAggFuncDesc\<close>: the descriptor of an aggregate call; its result type is that
    of a count (a big integer), of a sum (a decimal), or of the first operand.
  \<^item> \<open>extractCorrelatedCols\<close>, \<open>extractCorColumnsBySchema\<close>: the correlated columns a
    plan references, and those among them that a given schema holds.
  \<^item> \<open>buildSemiApply\<close>: a semi-join apply of the outer plan with the inner one,
    anti when negated, carrying the given conditions as join predicates; in scalar
    context it outputs one more column, which holds the truth value. Join hints are
    not modelled, so the call does not fail.
  \<^item> \<open>buildApplyWithJoinType\<close>: an apply of the given join type over both schemas.
  \<^item> \<open>buildDistinct\<close>: the aggregation that groups the child by its first columns and
    keeps the first row of each group, that is the child with duplicates removed.
  \<^item> \<open>SplitCNFItems\<close>: the conjuncts of a condition.
  \<^item> \<open>CheckArgsNotMultiColumnRow\<close>: the operand-columns error unless every operand
    has width 1.
\<close>

definition AllocPlanColumnID :: "rewriter \<Rightarrow> nat \<times> rewriter" where
  "AllocPlanColumnID er =
     (ctx_PlanColumnID er + 1, er\<lparr>ctx_PlanColumnID := ctx_PlanColumnID er + 1\<rparr>)"

definition NewAggFuncDesc :: "string \<Rightarrow> expression list \<Rightarrow> bool \<Rightarrow> aggFuncDesc" where
  "NewAggFuncDesc name args hasDistinct =
     \<lparr>Name = name, Args = args, HasDistinct = hasDistinct,
      RetTp = (if name = AggFuncCount then NewFieldType TypeLonglong
               else if name = AggFuncSum then NewFieldType TypeNewDecimal
               else (case args of [] \<Rightarrow> NewFieldType TypeUnspecified | a # _ \<Rightarrow> GetType a))\<rparr>"

fun extractCorColumns :: "expression \<Rightarrow> column list" where
  "extractCorColumns (CorrelatedColumn c) = [c]"
| "extractCorColumns (ScalarFunction f tp args) = concat (map extractCorColumns args)"
| "extractCorColumns e = []"

fun extractCorrelatedCols :: "logicalPlan \<Rightarrow> column list" where
  "extractCorrelatedCols (ResultSetNode sch cor) = cor"
| "extractCorrelatedCols (LogicalAggregation fs gs sch child) =
     extractCorrelatedCols child @ concat (map (\<lambda>f. concat (map extractCorColumns (Args f))) fs)
       @ concat (map extractCorColumns gs)"
| "extractCorrelatedCols (LogicalJoin jt l r sch conds) =
     extractCorrelatedCols l @ extractCorrelatedCols r @ concat (map extractCorColumns conds)"
| "extractCorrelatedCols (LogicalApply jt l r sch conds) =
     extractCorrelatedCols l @ extractCorrelatedCols r @ concat (map extractCorColumns conds)"
| "extractCorrelatedCols (LogicalProjection exprs sch child) =
     extractCorrelatedCols child @ concat (map extractCorColumns exprs)"

definition extractCorColumnsBySchema :: "logicalPlan \<Rightarrow> column list \<Rightarrow> column list" where
  "extractCorColumnsBySchema pl sch =
     filter (\<lambda>c. UniqueID c \<in> set (map UniqueID sch)) (extractCorrelatedCols pl)"

definition buildSemiApply ::
  "logicalPlan \<Rightarrow> logicalPlan \<Rightarrow> expression list \<Rightarrow> bool \<Rightarrow> bool \<Rightarrow> rewriter \<Rightarrow> logicalPlan \<times> rewriter" where
  "buildSemiApply outerPlan innerPlan condition asScalar not' er =
     (let er1 = er\<lparr>b_optFlag := b_optFlag er \<union> {flagPredicatePushDown, flagBuildKeyInfo, flagDecorrelate}\<rparr>
      in if asScalar then
           (let (cid, er2) = AllocPlanColumnID er1;
                aux = \<lparr>ColName = ''aux_0'', UniqueID = cid, RetType = NewFieldType TypeTiny,
                       IsReferenced = True, InOperand = False\<rparr>
            in (LogicalApply (if not' then AntiLeftOuterSemiJoin else LeftOuterSemiJoin)
                  outerPlan innerPlan (Schema outerPlan @ [aux]) condition, er2))
         else
           (LogicalApply (if not' then AntiSemiJoin else SemiJoin)
              outerPlan innerPlan (Schema outerPlan) condition, er1))"

definition buildApplyWithJoinType :: "logicalPlan \<Rightarrow> logicalPlan \<Rightarrow> joinType \<Rightarrow> rewriter \<Rightarrow> logicalPlan \<times> rewriter" where
  "buildApplyWithJoinType outerPlan innerPlan tp er =
     (LogicalApply tp outerPlan innerPlan
        (Schema outerPlan @ map (\<lambda>c. c\<lparr>IsReferenced := True\<rparr>) (Schema innerPlan)) [],
      er\<lparr>b_optFlag := b_optFlag er \<union> {flagPredicatePushDown, flagBuildKeyInfo, flagDecorrelate}\<rparr>)"

definition buildDistinct :: "logicalPlan \<Rightarrow> nat \<Rightarrow> rewriter \<Rightarrow> logicalAggregation \<times> rewriter" where
  "buildDistinct child len er =
     (let aggFuncs = map (\<lambda>col. NewAggFuncDesc AggFuncFirstRow [Column col] False) (Schema child)
      in (\<lparr>AggFuncs = aggFuncs,
           GroupByItems = map Column (take len (Schema child)),
           agg_schema = map (\<lambda>(col, f). col\<lparr>RetType := RetTp f\<rparr>) (zip (Schema child) aggFuncs),
           agg_child = child\<rparr>,
          er\<lparr>b_optFlag := b_optFlag er \<union> {flagBuildKeyInfo, flagPushDownAgg}\<rparr>))"

fun SplitCNFItems :: "expression \<Rightarrow> expression list" where
  "SplitCNFItems (ScalarFunction f tp args) =
     (if f = LogicAnd then concat (map SplitCNFItems args) else [ScalarFunction f tp args])"
| "SplitCNFItems e = [e]"

definition CheckArgsNotMultiColumnRow :: "expression list \<Rightarrow> error option" where
  "CheckArgsNotMultiColumnRow args =
     (if \<forall>arg \<in> set args. GetRowLen arg = 1 then None else Some (ErrOperandColumns 1))"


section \<open>Quantified comparisons with a subquery\<close>

definition newColumn :: "string \<Rightarrow> nat \<Rightarrow> fieldType \<Rightarrow> column" where
  "newColumn name uid tp =
     \<lparr>ColName = name, UniqueID = uid, RetType = tp, IsReferenced = False, InOperand = False\<rparr>"

text \<open>buildQuantifierPlan adds extra condition for any / all subquery.\<close>

definition buildQuantifierPlan ::
  "logicalAggregation \<Rightarrow> expression \<Rightarrow> expression \<Rightarrow> expression \<Rightarrow> bool \<Rightarrow> rewriter \<Rightarrow> rewriter" where
  "buildQuantifierPlan plan4Agg cond lexpr rexpr all er =
     (let innerIsNull = NewFunctionInternal IsNull (NewFieldType TypeTiny) [rexpr];
          outerIsNull = NewFunctionInternal IsNull (NewFieldType TypeTiny) [lexpr];
          funcSum = NewAggFuncDesc AggFuncSum [innerIsNull] False;
          (idSum, er1) = AllocPlanColumnID er;
          colSum = newColumn ''agg_col_sum'' idSum (RetTp funcSum);
          plan4Agg1 = plan4Agg\<lparr>AggFuncs := AggFuncs plan4Agg @ [funcSum],
                               agg_schema := agg_schema plan4Agg @ [colSum]\<rparr>;
          innerHasNull = NewFunctionInternal NE (NewFieldType TypeTiny) [Column colSum, Zero];
          funcCount = NewAggFuncDesc AggFuncCount [One] False;
          (idCount, er2) = AllocPlanColumnID er1;
          colCount = newColumn ''agg_col_cnt'' idCount (RetTp funcCount);
          plan4Agg2 = plan4Agg1\<lparr>AggFuncs := AggFuncs plan4Agg1 @ [funcCount],
                                agg_schema := agg_schema plan4Agg1 @ [colCount]\<rparr>;
          cond2 =
            (if all then
               (let innerNullChecker =
                      NewFunctionInternal IfFunc (NewFieldType TypeTiny) [innerHasNull, Null, One];
                    cond1 = ComposeCNFCondition [cond, innerNullChecker];
                    emptyChecker =
                      NewFunctionInternal EQ (NewFieldType TypeTiny) [Column colCount, Zero];
                    outerNullChecker =
                      NewFunctionInternal IfFunc (NewFieldType TypeTiny) [outerIsNull, Null, Zero]
                in ComposeDNFCondition [cond1, emptyChecker, outerNullChecker])
             else
               (let innerNullChecker =
                      NewFunctionInternal IfFunc (NewFieldType TypeTiny) [innerHasNull, Null, Zero];
                    cond1 = ComposeDNFCondition [cond, innerNullChecker];
                    emptyChecker =
                      NewFunctionInternal NE (NewFieldType TypeTiny) [Column colCount, Zero];
                    outerNullChecker =
                      NewFunctionInternal IfFunc (NewFieldType TypeTiny) [outerIsNull, Null, One]
                in ComposeCNFCondition [cond1, emptyChecker, outerNullChecker]))
      in if \<not> er_asScalar er2 then
           (let (pl, er3) = buildSemiApply (er_p er2) (aggPlan plan4Agg2) [cond2] False False er2
            in er3\<lparr>er_p := pl, er_err := None\<rparr>)
         else
           (let outerSchemaLen = length (Schema (er_p er2));
                (ap, er3) = buildApplyWithJoinType (er_p er2) (aggPlan plan4Agg2) InnerJoin er2;
                joinSchema = Schema ap;
                (idAux, er4) = AllocPlanColumnID er3;
                aux = \<lparr>ColName = ''aux_col'', UniqueID = idAux, RetType = GetType cond2,
                       IsReferenced = True, InOperand = False\<rparr>
            in er4\<lparr>er_p := LogicalProjection
                               (map Column (take outerSchemaLen joinSchema) @ [cond2])
                               (take outerSchemaLen joinSchema @ [aux]) ap\<rparr>))"

text \<open>
  handleOtherComparableSubq handles the queries like < any, < max, etc. For example, if
  the query is t.id < any (select s.id from s), it will be rewrote to
  t.id < (select max(s.id) from s).
\<close>

definition handleOtherComparableSubq ::
  "expression \<Rightarrow> expression \<Rightarrow> logicalPlan \<Rightarrow> bool \<Rightarrow> string \<Rightarrow> bool \<Rightarrow> rewriter \<Rightarrow> rewriter" where
  "handleOtherComparableSubq lexpr rexpr np useMin cmpFunc all er =
     (let funcName = (if useMin then AggFuncMin else AggFuncMax);
          funcMaxOrMin = NewAggFuncDesc funcName [rexpr] False;
          (cid, er1) = AllocPlanColumnID er;
          colMaxOrMin = newColumn ''agg_Col_0'' cid (RetTp funcMaxOrMin);
          plan4Agg = \<lparr>AggFuncs = [funcMaxOrMin], GroupByItems = [],
                      agg_schema = [colMaxOrMin], agg_child = np\<rparr>;
          cond = NewFunctionInternal cmpFunc (NewFieldType TypeTiny) [lexpr, Column colMaxOrMin]
      in buildQuantifierPlan plan4Agg cond lexpr rexpr all er1)"

text \<open>
  handleNEAny handles the case of != any. For example, if the query is
  t.id != any (select s.id from s), it will be rewrote to
  t.id != s.id or count(distinct s.id) > 1 or [any checker].
\<close>

definition handleNEAny :: "expression \<Rightarrow> expression \<Rightarrow> logicalPlan \<Rightarrow> rewriter \<Rightarrow> rewriter" where
  "handleNEAny lexpr rexpr np er =
     (let firstRowFunc = NewAggFuncDesc AggFuncFirstRow [rexpr] False;
          countFunc = NewAggFuncDesc AggFuncCount [rexpr] True;
          (idFirst, er1) = AllocPlanColumnID er;
          firstRowResultCol = newColumn ''col_firstRow'' idFirst (RetTp firstRowFunc);
          (idCount, er2) = AllocPlanColumnID er1;
          count = newColumn ''col_count'' idCount (RetTp countFunc);
          plan4Agg = \<lparr>AggFuncs = [firstRowFunc, countFunc], GroupByItems = [],
                      agg_schema = [firstRowResultCol, count], agg_child = np\<rparr>;
          gtFunc = NewFunctionInternal GT (NewFieldType TypeTiny) [Column count, One];
          neCond = NewFunctionInternal NE (NewFieldType TypeTiny) [lexpr, Column firstRowResultCol];
          cond = ComposeDNFCondition [gtFunc, neCond]
      in buildQuantifierPlan plan4Agg cond lexpr rexpr False er2)"

text \<open>
  handleEQAll handles the case of = all. For example, if the query is
  t.id = all (select s.id from s), it will be rewrote to
  t.id = (select s.id from s having count(distinct s.id) <= 1 and [all checker]).
\<close>

definition handleEQAll :: "expression \<Rightarrow> expression \<Rightarrow> logicalPlan \<Rightarrow> rewriter \<Rightarrow> rewriter" where
  "handleEQAll lexpr rexpr np er =
     (let firstRowFunc = NewAggFuncDesc AggFuncFirstRow [rexpr] False;
          countFunc = NewAggFuncDesc AggFuncCount [rexpr] True;
          (idFirst, er1) = AllocPlanColumnID er;
          firstRowResultCol = newColumn ''col_firstRow'' idFirst (RetTp firstRowFunc);
          (idCount, er2) = AllocPlanColumnID er1;
          count = newColumn ''col_count'' idCount (RetTp countFunc);
          plan4Agg = \<lparr>AggFuncs = [firstRowFunc, countFunc], GroupByItems = [],
                      agg_schema = [firstRowResultCol, count], agg_child = np\<rparr>;
          leFunc = NewFunctionInternal LE (NewFieldType TypeTiny) [Column count, One];
          eqCond = NewFunctionInternal EQ (NewFieldType TypeTiny) [lexpr, Column firstRowResultCol];
          cond = ComposeCNFCondition [leFunc, eqCond]
      in buildQuantifierPlan plan4Agg cond lexpr rexpr True er2)"

text \<open>
  The inner operand of an IN or of \<open>= any\<close> / \<open>!= all\<close> is the first column of the
  subquery's schema itself (a pointer), so marking it \<^verbatim>\<open>InOperand\<close> marks the column in
  the plan as well: \<open>setFirstColumn\<close> writes the column back into the schema.
\<close>

fun setFirstColumn :: "column \<Rightarrow> logicalPlan \<Rightarrow> logicalPlan" where
  "setFirstColumn c (ResultSetNode sch cor) = ResultSetNode (sch[0 := c]) cor"
| "setFirstColumn c (LogicalAggregation fs gs sch child) = LogicalAggregation fs gs (sch[0 := c]) child"
| "setFirstColumn c (LogicalJoin jt l r sch conds) = LogicalJoin jt l r (sch[0 := c]) conds"
| "setFirstColumn c (LogicalApply jt l r sch conds) = LogicalApply jt l r (sch[0 := c]) conds"
| "setFirstColumn c (LogicalProjection exprs sch child) = LogicalProjection exprs (sch[0 := c]) child"

definition markInOperand :: "expression \<Rightarrow> column \<Rightarrow> column" where
  "markInOperand l rCol =
     (case l of
        Column lCol \<Rightarrow>
          (if NotNullFlag (RetType lCol) \<and> NotNullFlag (RetType rCol)
           then rCol\<lparr>InOperand := False\<rparr> else rCol\<lparr>InOperand := True\<rparr>)
      | _ \<Rightarrow> rCol\<lparr>InOperand := True\<rparr>)"

definition buildSemiApplyFromEqualSubq ::
  "logicalPlan \<Rightarrow> expression \<Rightarrow> expression \<Rightarrow> bool \<Rightarrow> rewriter \<Rightarrow> rewriter" where
  "buildSemiApplyFromEqualSubq np l r not' er =
     (let (r1, np1) =
            (case r of
               Column rCol \<Rightarrow>
                 (if er_asScalar er \<or> not'
                  then (Column (markInOperand l rCol), setFirstColumn (markInOperand l rCol) np)
                  else (r, np))
             | _ \<Rightarrow> (r, np))
      in case constructBinaryOpFunction l r1 EQ of
           Inl e \<Rightarrow> er\<lparr>er_err := Some e\<rparr>
         | Inr condition \<Rightarrow>
             (let (pl, er1) = buildSemiApply (er_p er) np1 [condition] (er_asScalar er) not' er
              in er1\<lparr>er_p := pl, er_err := None\<rparr>))"

text \<open>
  The parts of the syntax tree the subquery handlers read. The comparison operators of
  a \<^verbatim>\<open>CompareSubqueryExpr\<close> with their \<^verbatim>\<open>String()\<close>; the right operand, which is a
  \<^verbatim>\<open>SubqueryExpr\<close> or something else. A \<^verbatim>\<open>SubqueryExpr\<close> is given by what
  \<^verbatim>\<open>buildSubquery\<close> returns for it, a plan or an error: the plan builder is not
  under src/. The traversal of an operand (\<^verbatim>\<open>v.L.Accept(er)\<close>, \<^verbatim>\<open>v.Expr.Accept(er)\<close>)
  is the state transformer \<open>visit\<close>.
\<close>

datatype opcode = opEQ | opNE | opNullEQ | opLT | opLE | opGT | opGE

fun opString :: "opcode \<Rightarrow> string" where
  "opString opEQ = EQ"
| "opString opNE = NE"
| "opString opNullEQ = NullEQ"
| "opString opLT = LT"
| "opString opLE = LE"
| "opString opGT = GT"
| "opString opGE = GE"

datatype exprNode = SubqueryExpr "error + logicalPlan" | OtherExprNode

definition buildSubquery :: "error + logicalPlan \<Rightarrow> rewriter \<Rightarrow> error + logicalPlan" where
  "buildSubquery subq er = subq"

text \<open>The row of the subquery's columns, or its only column.\<close>

definition subqueryOperand :: "logicalPlan \<Rightarrow> error + expression" where
  "subqueryOperand np =
     (if length (Schema np) = 1 then Inr (Column (Schema np ! 0))
      else (case map Column (Schema np) of
              [] \<Rightarrow> Inl PanicIndexOutOfRange
            | a # as \<Rightarrow> newFunction RowFunc (GetType a) (a # as)))"

text \<open>
  The end of handleCompareSubquery: in scalar context the parent expression only uses
  the last column of the new plan's schema, which represents whether the condition is
  matched; it replaces the left operand on top of the stack.
\<close>

definition useLastColumn :: "rewriter \<Rightarrow> rewriter" where
  "useLastColumn er =
     (if er_asScalar er then
        (if Schema (er_p er) = [] \<or> er_ctxStack er = [] then er\<lparr>er_err := Some PanicIndexOutOfRange\<rparr>
         else er\<lparr>er_ctxStack := butlast (er_ctxStack er) @ [Column (last (Schema (er_p er)))]\<rparr>)
      else er)"

definition handleCompareSubquery ::
  "(rewriter \<Rightarrow> rewriter) \<Rightarrow> opcode \<Rightarrow> exprNode \<Rightarrow> bool \<Rightarrow> rewriter \<Rightarrow> rewriter" where
  "handleCompareSubquery visitL vOp vR vAll er0 =
     (let er = visitL er0 in
      if er_err er \<noteq> None then er
      else if er_ctxStack er = [] then er\<lparr>er_err := Some PanicIndexOutOfRange\<rparr>
      else
        (let lexpr = last (er_ctxStack er) in
         case vR of
           OtherExprNode \<Rightarrow> er\<lparr>er_err := Some ErrUnknownCompareType\<rparr>
         | SubqueryExpr subq \<Rightarrow>
        (case buildSubquery subq er of
           Inl e \<Rightarrow> er\<lparr>er_err := Some e\<rparr>
         | Inr np \<Rightarrow>
             (let canMultiCol = ((\<not> vAll \<and> vOp = opEQ) \<or> (vAll \<and> vOp = opNE)) in
              if \<not> canMultiCol \<and> (GetRowLen lexpr \<noteq> 1 \<or> length (Schema np) \<noteq> 1)
              then er\<lparr>er_err := Some (ErrOperandColumns 1)\<rparr>
              else if GetRowLen lexpr \<noteq> length (Schema np)
              then er\<lparr>er_err := Some (ErrOperandColumns (GetRowLen lexpr))\<rparr>
              else
                (case subqueryOperand np of
                   Inl e \<Rightarrow> er\<lparr>er_err := Some e\<rparr>
                 | Inr rexpr \<Rightarrow>
                     (if vOp = opEQ then
                        (if vAll then useLastColumn (handleEQAll lexpr rexpr np er)
                         else
                           (let er1 = buildSemiApplyFromEqualSubq np lexpr rexpr False er
                            in if er_err er1 \<noteq> None then er1 else useLastColumn er1))
                      else if vOp = opNE then
                        (if vAll then
                           (let er1 = buildSemiApplyFromEqualSubq np lexpr rexpr True er
                            in if er_err er1 \<noteq> None then er1 else useLastColumn er1)
                         else useLastColumn (handleNEAny lexpr rexpr np er))
                      else if vOp = opNullEQ then er\<lparr>er_err := Some ErrNullEQQuantifier\<rparr>
                      else
                        (let useMin = (((vOp = opLT \<or> vOp = opLE) \<and> vAll)
                                       \<or> ((vOp = opGT \<or> vOp = opGE) \<and> \<not> vAll))
                         in useLastColumn
                              (handleOtherComparableSubq lexpr rexpr np useMin (opString vOp) vAll er))))))))"


section \<open>IN with a subquery\<close>

text \<open>
  handleInSubquery: \<open>visitExpr\<close> is the traversal of the left operand, \<open>vSel\<close> the
  subquery and \<open>vNot\<close> whether the IN is negated. The subquery's only column is marked
  as the operand of an IN when the IN is negated or its value is needed, unless both
  sides are columns that are never NULL. Join hints are not modelled.
\<close>

definition handleInSubquery ::
  "(rewriter \<Rightarrow> rewriter) \<Rightarrow> exprNode \<Rightarrow> bool \<Rightarrow> rewriter \<Rightarrow> rewriter" where
  "handleInSubquery visitExpr vSel vNot er0 =
     (let asScalar = er_asScalar er0;
          er = visitExpr (er0\<lparr>er_asScalar := True\<rparr>) in
      if er_err er \<noteq> None then er
      else if er_ctxStack er = [] then er\<lparr>er_err := Some PanicIndexOutOfRange\<rparr>
      else
        (let lexpr = last (er_ctxStack er) in
         case vSel of
           OtherExprNode \<Rightarrow> er\<lparr>er_err := Some ErrUnknownCompareType\<rparr>
         | SubqueryExpr subq \<Rightarrow>
        (case buildSubquery subq er of
           Inl e \<Rightarrow> er\<lparr>er_err := Some e\<rparr>
         | Inr np0 \<Rightarrow>
             (if GetRowLen lexpr \<noteq> length (Schema np0)
              then er\<lparr>er_err := Some (ErrOperandColumns (GetRowLen lexpr))\<rparr>
              else
                (case subqueryOperand np0 of
                   Inl e \<Rightarrow> er\<lparr>er_err := Some e\<rparr>
                 | Inr rexpr0 \<Rightarrow>
                (let (rexpr, np) =
                       (if length (Schema np0) = 1 \<and> (vNot \<or> asScalar)
                        then (Column (markInOperand lexpr (Schema np0 ! 0)),
                              setFirstColumn (markInOperand lexpr (Schema np0 ! 0)) np0)
                        else (rexpr0, np0))
                 in case constructBinaryOpFunction lexpr rexpr EQ of
                      Inl e \<Rightarrow> er\<lparr>er_err := Some e\<rparr>
                    | Inr checkCondition \<Rightarrow>
                   (let er3 =
                      (if ctx_AllowInSubqToJoinAndAgg er \<and> \<not> vNot \<and> \<not> asScalar
                          \<and> length (extractCorColumnsBySchema np (Schema (er_p er))) = 0
                       then
                         (let er1 = er\<lparr>b_optFlag := b_optFlag er
                                        \<union> {flagEliminateAgg, flagEliminateProjection, flagJoinReOrder}\<rparr>;
                              (agg0, er2) = buildDistinct np (length (Schema np)) er1;
                              agg = agg0\<lparr>agg_schema :=
                                            map (\<lambda>col. col\<lparr>IsReferenced := True\<rparr>) (agg_schema agg0)\<rparr>
                          in er2\<lparr>er_p := LogicalJoin InnerJoin (er_p er2) (aggPlan agg)
                                             (Schema (er_p er2) @ agg_schema agg)
                                             (SplitCNFItems checkCondition)\<rparr>)
                       else
                         (let (pl, er1) = buildSemiApply (er_p er) np
                                            (SplitCNFItems checkCondition) asScalar vNot er
                          in er1\<lparr>er_p := pl, er_err := None\<rparr>))
                    in if asScalar then
                         (if Schema (er_p er3) = [] then er3\<lparr>er_err := Some PanicIndexOutOfRange\<rparr>
                          else er3\<lparr>er_ctxStack :=
                                     butlast (er_ctxStack er3) @ [Column (last (Schema (er_p er3)))]\<rparr>)
                       else er3\<lparr>er_ctxStack := butlast (er_ctxStack er3)\<rparr>)))))))"

section \<open>The result of a rewrite\<close>

text \<open>
  rewriteExprNode: \<open>accept\<close> is the traversal \<^verbatim>\<open>exprNode.Accept(rewriter)\<close>. The result
  is the error, or the expression (\<open>None\<close> is Go's nil) with the plan.
\<close>

definition rewriteExprNode ::
  "(rewriter \<Rightarrow> rewriter) \<Rightarrow> bool \<Rightarrow> rewriter \<Rightarrow> error + (expression option \<times> logicalPlan)" where
  "rewriteExprNode accept asScalar rewriter0 =
     (let rewriter = accept rewriter0 in
      case er_err rewriter of
        Some e \<Rightarrow> Inl e
      | None \<Rightarrow>
          if \<not> asScalar \<and> length (er_ctxStack rewriter) = 0 then Inr (None, er_p rewriter)
          else if length (er_ctxStack rewriter) \<noteq> 1
          then Inl (ErrContextLen (length (er_ctxStack rewriter)))
          else (case CheckArgsNotMultiColumnRow [er_ctxStack rewriter ! 0] of
                  Some e \<Rightarrow> Inl e
                | None \<Rightarrow> Inr (Some (er_ctxStack rewriter ! 0), er_p rewriter)))"

text \<open>
  The traversal of a literal: \<^verbatim>\<open>Enter\<close> has no case for a \<^verbatim>\<open>ValueExpr\<close>, so its
  default case sets \<^verbatim>\<open>asScalar\<close>; \<^verbatim>\<open>Leave\<close> returns at once when an error is pending and
  else pushes the constant.
\<close>

definition visitValueExpr :: "datum \<Rightarrow> fieldType \<Rightarrow> rewriter \<Rightarrow> rewriter" where
  "visitValueExpr d tp er =
     (let er1 = er\<lparr>er_asScalar := True\<rparr> in
      if er_err er1 \<noteq> None then er1
      else er1\<lparr>er_ctxStack := er_ctxStack er1 @ [Constant d tp]\<rparr>)"

section \<open>IN with a list, and function calls\<close>

datatype evalType = ETInt | ETDecimal | ETString

fun EvalType :: "fieldType \<Rightarrow> evalType" where
  "EvalType ft =
     (case Tp ft of
        TypeTiny \<Rightarrow> ETInt
      | TypeLonglong \<Rightarrow> ETInt
      | TypeNewDecimal \<Rightarrow> ETDecimal
      | _ \<Rightarrow> ETString)"

definition notToExpression :: "bool \<Rightarrow> string \<Rightarrow> fieldType \<Rightarrow> expression list \<Rightarrow> error + expression" where
  "notToExpression hasNot op tp args =
     (case newFunction op tp args of
        Inl e \<Rightarrow> Inl e
      | Inr opFunc \<Rightarrow> if \<not> hasNot then Inr opFunc else newFunction UnaryNot tp [opFunc])"

text \<open>
  inToExpression converts in expression to a scalar function. The argument lLen means
  the length of in list. The argument not means if the expression is not in.
  \<^verbatim>\<open>expression.RefineComparedConstant\<close> and \<^verbatim>\<open>expression.GetAccurateCmpType\<close> are
  not under src/; they are the parameters \<open>refine\<close> and \<open>cmpType\<close>.
\<close>

definition inToExpression ::
  "(fieldType \<Rightarrow> expression \<Rightarrow> expression \<times> bool) \<Rightarrow> (expression \<Rightarrow> expression \<Rightarrow> evalType) \<Rightarrow>
   nat \<Rightarrow> bool \<Rightarrow> fieldType \<Rightarrow> rewriter \<Rightarrow> rewriter" where
  "inToExpression refine cmpType lLen not' tp er =
     (let stkLen = length (er_ctxStack er) in
      if stkLen < lLen + 1 then er\<lparr>er_err := Some PanicIndexOutOfRange\<rparr>
      else
        (let l = GetRowLen (er_ctxStack er ! (stkLen - lLen - 1)) in
         if \<exists>i \<in> set [0..<lLen]. l \<noteq> GetRowLen (er_ctxStack er ! (stkLen - lLen + i))
         then er\<lparr>er_err := Some (ErrOperandColumns l)\<rparr>
         else
           (let args0 = drop (stkLen - lLen - 1) (er_ctxStack er);
                leftFt = GetType (args0 ! 0);
                leftEt = EvalType leftFt;
                leftIsNull = (Tp leftFt = TypeNull)
            in if leftIsNull
               then er\<lparr>er_ctxStack := take (stkLen - lLen - 1) (er_ctxStack er) @ [Null]\<rparr>
               else
                 (let args =
                        (if leftEt = ETInt then
                           args0 ! 0 #
                             map (\<lambda>a. case a of
                                         Constant d t \<Rightarrow>
                                           (let (a1, isExceptional) = refine leftFt a
                                            in if isExceptional then a else a1)
                                       | _ \<Rightarrow> a)
                                 (tl args0)
                         else args0);
                      allSameType =
                        (\<forall>arg \<in> set (tl args).
                           Tp (GetType arg) = TypeNull \<or> cmpType (args ! 0) arg = leftEt)
                  in if allSameType \<and> l = 1 then
                       (case notToExpression not' In tp args of
                          Inl e \<Rightarrow> er\<lparr>er_err := Some e,
                                       er_ctxStack := take (stkLen - lLen - 1) (er_ctxStack er) @ [NilExpr]\<rparr>
                        | Inr function \<Rightarrow>
                            er\<lparr>er_ctxStack := take (stkLen - lLen - 1) (er_ctxStack er) @ [function]\<rparr>)
                     else
                       (case collectFuncs
                               (map (\<lambda>e. constructBinaryOpFunction (args ! 0) e EQ) (tl args)) of
                          Inl e \<Rightarrow> er\<lparr>er_err := Some e\<rparr>
                        | Inr eqFunctions \<Rightarrow>
                            (if not' then
                               (case newFunction UnaryNot tp [ComposeDNFCondition eqFunctions] of
                                  Inl e \<Rightarrow> er\<lparr>er_err := Some e\<rparr>
                                | Inr function \<Rightarrow>
                                    er\<lparr>er_ctxStack :=
                                         take (stkLen - lLen - 1) (er_ctxStack er) @ [function]\<rparr>)
                             else
                               er\<lparr>er_ctxStack :=
                                    take (stkLen - lLen - 1) (er_ctxStack er)
                                      @ [ComposeDNFCondition eqFunctions]\<rparr>))))))"

text \<open>
  rewriteFuncCall handles a FuncCallExpr and generates a customized function. It
  returns true if for the given FuncCallExpr a rewrite is performed so that original
  behavior is skipped. \<open>fnName\<close> is \<^verbatim>\<open>v.FnName.L\<close> and \<open>nArgs\<close> is \<^verbatim>\<open>len(v.Args)\<close>; the
  error message carries the name as written, which the model takes to be the same.
\<close>

definition Nullif :: string where "Nullif = ''nullif''"

definition rewriteFuncCall :: "string \<Rightarrow> nat \<Rightarrow> fieldType \<Rightarrow> rewriter \<Rightarrow> bool \<times> rewriter" where
  "rewriteFuncCall fnName nArgs vType er =
     (if fnName = Ifnull then
        (if nArgs \<noteq> 2 then (True, er\<lparr>er_err := Some (ErrIncorrectParameterCount fnName)\<rparr>)
         else if length (er_ctxStack er) < 2 then (True, er\<lparr>er_err := Some PanicIndexOutOfRange\<rparr>)
         else
           (case er_ctxStack er ! (length (er_ctxStack er) - 2) of
              Column col \<Rightarrow>
                (if NotNullFlag (RetType col) then
                   (True, er\<lparr>er_ctxStack :=
                               take (length (er_ctxStack er) - nArgs) (er_ctxStack er)
                                 @ [Column (col\<lparr>IsReferenced := True\<rparr>)]\<rparr>)
                 else (False, er))
            | _ \<Rightarrow> (False, er)))
      else if fnName = Nullif then
        (if nArgs \<noteq> 2 then (True, er\<lparr>er_err := Some (ErrIncorrectParameterCount fnName)\<rparr>)
         else if length (er_ctxStack er) < 2 then (True, er\<lparr>er_err := Some PanicIndexOutOfRange\<rparr>)
         else
           (let stackLen = length (er_ctxStack er);
                param1 = er_ctxStack er ! (stackLen - 2);
                param2 = er_ctxStack er ! (stackLen - 1)
            in case constructBinaryOpFunction param1 param2 EQ of
                 Inl e \<Rightarrow> (True, er\<lparr>er_err := Some e\<rparr>)
               | Inr funcCompare \<Rightarrow>
                   (case newFunction IfFunc vType
                           [funcCompare, Constant DNull (NewFieldType TypeNull), param1] of
                      Inl e \<Rightarrow> (True, er\<lparr>er_err := Some e\<rparr>)
                    | Inr funcIf \<Rightarrow>
                        (True, er\<lparr>er_ctxStack :=
                                    take (stackLen - nArgs) (er_ctxStack er) @ [funcIf]\<rparr>))))
      else (False, er))"

text \<open>
  funcCallToExpression: the operands of the call are on top of the stack.
  \<open>deferred\<close> says that the statement uses the plan cache and the function is one of
  \<^verbatim>\<open>expression.DeferredFunctions\<close> (a table not under src/); the constant pushed then
  stands for the call, whose evaluation is put off.
\<close>

definition funcCallToExpression :: "bool \<Rightarrow> string \<Rightarrow> nat \<Rightarrow> fieldType \<Rightarrow> rewriter \<Rightarrow> rewriter" where
  "funcCallToExpression deferred fnName nArgs vType er =
     (let stackLen = length (er_ctxStack er) in
      if stackLen < nArgs then er\<lparr>er_err := Some PanicIndexOutOfRange\<rparr>
      else
        (let args = drop (stackLen - nArgs) (er_ctxStack er) in
         case CheckArgsNotMultiColumnRow args of
           Some e \<Rightarrow> er\<lparr>er_err := Some e\<rparr>
         | None \<Rightarrow>
             (let (done, er1) = rewriteFuncCall fnName nArgs vType er in
              if done then er1
              else
                (let er2 = er1\<lparr>er_ctxStack := take (stackLen - nArgs) (er_ctxStack er1)\<rparr> in
                 if deferred then
                   er2\<lparr>er_ctxStack := er_ctxStack er2 @ [Constant DNull vType]\<rparr>
                 else
                   (case newFunction fnName vType args of
                      Inl e \<Rightarrow> er2\<lparr>er_err := Some e, er_ctxStack := er_ctxStack er2 @ [NilExpr]\<rparr>
                    | Inr function \<Rightarrow> er2\<lparr>er_ctxStack := er_ctxStack er2 @ [function]\<rparr>)))))"


section \<open>The value of an expression\<close>

text \<open>
  Modelled from the spec: the evaluation of expressions and of the built-in functions
  is code of the package \<^verbatim>\<open>expression\<close>, not under src/. The spec fixes SQL's
  three-valued logic for the conditions the rewriter builds: a comparison with NULL is
  NULL; AND is false when an operand is false, else NULL when one is NULL; OR is true
  when an operand is true, else NULL when one is NULL; NOT NULL is NULL; IF takes its
  second operand when the first is true and the third when it is false or NULL;
  \<open>isnull\<close> and \<open><=>\<close> are never NULL. A row maps the unique id of a column to
  its value; an integer is true when it is not 0.
\<close>

definition isTrue :: "datum \<Rightarrow> bool" where
  "isTrue d = (case d of DNull \<Rightarrow> False | DInt n \<Rightarrow> n \<noteq> 0)"

definition isFalse :: "datum \<Rightarrow> bool" where
  "isFalse d = (case d of DNull \<Rightarrow> False | DInt n \<Rightarrow> n = 0)"

definition boolDatum :: "bool \<Rightarrow> datum" where
  "boolDatum b = DInt (if b then 1 else 0)"

definition and3 :: "datum \<Rightarrow> datum \<Rightarrow> datum" where
  "and3 a b =
     (if isFalse a \<or> isFalse b then DInt 0
      else if a = DNull \<or> b = DNull then DNull else DInt 1)"

definition or3 :: "datum \<Rightarrow> datum \<Rightarrow> datum" where
  "or3 a b =
     (if isTrue a \<or> isTrue b then DInt 1
      else if a = DNull \<or> b = DNull then DNull else DInt 0)"

definition not3 :: "datum \<Rightarrow> datum" where
  "not3 a = (case a of DNull \<Rightarrow> DNull | DInt n \<Rightarrow> boolDatum (n = 0))"

definition if3 :: "datum \<Rightarrow> datum \<Rightarrow> datum \<Rightarrow> datum" where
  "if3 c t e = (if isTrue c then t else e)"

definition cmp3 :: "(int \<Rightarrow> int \<Rightarrow> bool) \<Rightarrow> datum \<Rightarrow> datum \<Rightarrow> datum" where
  "cmp3 rel a b =
     (case a of DNull \<Rightarrow> DNull
      | DInt x \<Rightarrow> (case b of DNull \<Rightarrow> DNull | DInt y \<Rightarrow> boolDatum (rel x y)))"

definition evalBuiltin :: "string \<Rightarrow> datum list \<Rightarrow> datum" where
  "evalBuiltin f vs =
     (case vs of
        [a] \<Rightarrow>
          (if f = IsNull then boolDatum (a = DNull)
           else if f = UnaryNot then not3 a
           else DNull)
      | [a, b] \<Rightarrow>
          (if f = LogicAnd then and3 a b
           else if f = LogicOr then or3 a b
           else if f = EQ then cmp3 (\<lambda>x y. x = y) a b
           else if f = NE then cmp3 (\<lambda>x y. x \<noteq> y) a b
           else if f = LT then cmp3 (\<lambda>x y. x < y) a b
           else if f = LE then cmp3 (\<lambda>x y. x \<le> y) a b
           else if f = GT then cmp3 (\<lambda>x y. x > y) a b
           else if f = GE then cmp3 (\<lambda>x y. x \<ge> y) a b
           else if f = NullEQ then boolDatum (a = b)
           else DNull)
      | [c, t, e] \<Rightarrow> (if f = IfFunc then if3 c t e else DNull)
      | _ \<Rightarrow> DNull)"

fun Eval :: "(nat \<Rightarrow> datum) \<Rightarrow> expression \<Rightarrow> datum" where
  "Eval row (Column c) = row (UniqueID c)"
| "Eval row (CorrelatedColumn c) = row (UniqueID c)"
| "Eval row (Constant d tp) = d"
| "Eval row (ScalarFunction f tp args) = evalBuiltin f (map (Eval row) args)"
| "Eval row NilExpr = DNull"


section \<open>Key and row codec\<close>

text \<open>
  Modelled from the spec: the package \<^verbatim>\<open>tablecodec\<close> has only its test file under src/
  (\<^verbatim>\<open>tablecodec_test.go\<close>); \<^verbatim>\<open>tablecodec.go\<close> and the package \<^verbatim>\<open>util/codec\<close> are
  missing. The definitions follow sections 3 and 4.1 of the spec. A table id or a handle
  is a signed 64-bit integer, written in 8 bytes with its sign bit flipped, most
  significant byte first, so that the order of the bytes is the order of the integers.
  A table prefix is \<^verbatim>\<open>'t'\<close> and the flipped table id; \<open>EncodeRecordKey\<close> appends
  \<^verbatim>\<open>'_r'\<close> and the flipped handle; \<open>EncodeRowKeyWithHandle\<close> is the record key of a
  table id and a handle. \<open>DecodeRecordKey\<close> fails with \<open>InvalidKey\<close> unless the key
  has exactly the length of the header and an 8-byte handle and holds both markers.
\<close>

type_synonym byte = "8 word"

datatype codecError = InvalidKey | DecodeError | ColumnCountMismatch

definition signMask :: "64 word" where
  "signMask = push_bit 63 1"

definition EncodeIntToCmpUint :: "64 word \<Rightarrow> 64 word" where
  "EncodeIntToCmpUint v = v XOR signMask"

definition DecodeCmpUintToInt :: "64 word \<Rightarrow> 64 word" where
  "DecodeCmpUintToInt u = u XOR signMask"

fun bigEndian :: "nat \<Rightarrow> 64 word \<Rightarrow> byte list" where
  "bigEndian 0 v = []"
| "bigEndian (Suc n) v = bigEndian n (drop_bit 8 v) @ [ucast v]"

definition fromBigEndian :: "byte list \<Rightarrow> 64 word" where
  "fromBigEndian bs = foldl (\<lambda>acc b. push_bit 8 acc OR ucast b) 0 bs"

definition EncodeInt :: "byte list \<Rightarrow> 64 word \<Rightarrow> byte list" where
  "EncodeInt b v = b @ bigEndian 8 (EncodeIntToCmpUint v)"

definition DecodeInt :: "byte list \<Rightarrow> codecError + (byte list \<times> 64 word)" where
  "DecodeInt b =
     (if length b < 8 then Inl DecodeError
      else Inr (drop 8 b, DecodeCmpUintToInt (fromBigEndian (take 8 b))))"

definition tablePrefix :: "byte list" where
  "tablePrefix = [0x74]"

definition recordPrefixSep :: "byte list" where
  "recordPrefixSep = [0x5F, 0x72]"

definition recordRowKeyLen :: nat where
  "recordRowKeyLen = 1 + 8 + 2 + 8"

definition EncodeTablePrefix :: "64 word \<Rightarrow> byte list" where
  "EncodeTablePrefix tableID = EncodeInt tablePrefix tableID"

definition EncodeRecordKey :: "byte list \<Rightarrow> 64 word \<Rightarrow> byte list" where
  "EncodeRecordKey prefix h = EncodeInt (prefix @ recordPrefixSep) h"

definition EncodeRowKeyWithHandle :: "64 word \<Rightarrow> 64 word \<Rightarrow> byte list" where
  "EncodeRowKeyWithHandle tableID handle = EncodeRecordKey (EncodeTablePrefix tableID) handle"

definition DecodeRecordKey :: "byte list \<Rightarrow> codecError + (64 word \<times> 64 word)" where
  "DecodeRecordKey key =
     (if length key \<noteq> recordRowKeyLen then Inl InvalidKey
      else if take 1 key \<noteq> tablePrefix then Inl InvalidKey
      else
        (case DecodeInt (drop 1 key) of
           Inl e \<Rightarrow> Inl InvalidKey
         | Inr (rest, tableID) \<Rightarrow>
             (if take 2 rest \<noteq> recordPrefixSep then Inl InvalidKey
              else
                (case DecodeInt (drop 2 rest) of
                   Inl e \<Rightarrow> Inl InvalidKey
                 | Inr (rest1, handle) \<Rightarrow> Inr (tableID, handle)))))"

text \<open>
  Modelled from the spec: the row codec (sections 3 and 4.2 of the spec), for integer,
  byte string and NULL values. A value is written with a leading byte that tells its
  kind (nothing follows for NULL, 8 bytes for an integer, an 8-byte length and the bytes
  for a byte string). A row is the sequence of its (column id, value) pairs in
  ascending order of the column id, each id written as an integer value; the row of no
  column is the single byte that marks NULL. Decoding keeps the columns that the
  requested type map names and skips the others; the empty marker, like no bytes at
  all, decodes to the empty mapping.
\<close>

datatype rowDatum = KindNull | KindInt64 "64 word" | KindBytes "byte list"

definition NilFlag :: byte where "NilFlag = 0"
definition bytesFlag :: byte where "bytesFlag = 1"
definition intFlag :: byte where "intFlag = 3"

fun EncodeValue :: "rowDatum \<Rightarrow> byte list" where
  "EncodeValue KindNull = [NilFlag]"
| "EncodeValue (KindInt64 v) = intFlag # bigEndian 8 (EncodeIntToCmpUint v)"
| "EncodeValue (KindBytes bs) = bytesFlag # bigEndian 8 (of_nat (length bs)) @ bs"

fun DecodeOne :: "byte list \<Rightarrow> codecError + (rowDatum \<times> byte list)" where
  "DecodeOne [] = Inl DecodeError"
| "DecodeOne (flag # b) =
     (if flag = NilFlag then Inr (KindNull, b)
      else if flag = intFlag then
        (if length b < 8 then Inl DecodeError
         else Inr (KindInt64 (DecodeCmpUintToInt (fromBigEndian (take 8 b))), drop 8 b))
      else if flag = bytesFlag then
        (if length b < 8 then Inl DecodeError
         else if length (drop 8 b) < unat (fromBigEndian (take 8 b)) then Inl DecodeError
         else Inr (KindBytes (take (unat (fromBigEndian (take 8 b))) (drop 8 b)),
                   drop (unat (fromBigEndian (take 8 b))) (drop 8 b)))
      else Inl DecodeError)"

lemma DecodeOne_shorter:
  "DecodeOne b = Inr (d, rest) \<Longrightarrow> length rest < length b"
  by (cases b) (auto split: if_splits)

definition EncodeRow :: "rowDatum list \<Rightarrow> 64 word list \<Rightarrow> codecError + byte list" where
  "EncodeRow row colIDs =
     (if length row \<noteq> length colIDs then Inl ColumnCountMismatch
      else if length row = 0 then Inr [NilFlag]
      else Inr (concat (map (\<lambda>(colID, v). EncodeValue (KindInt64 colID) @ EncodeValue v)
                            (sort_key (\<lambda>(colID, v). sint colID) (zip colIDs row)))))"

function decodeRowPairs ::
  "byte list \<Rightarrow> (64 word \<rightharpoonup> fieldType) \<Rightarrow> (64 word \<rightharpoonup> rowDatum) \<Rightarrow> codecError + (64 word \<rightharpoonup> rowDatum)" where
  "decodeRowPairs b cols row =
     (if b = [] then Inr row
      else
        (case DecodeOne b of
           Inl e \<Rightarrow> Inl e
         | Inr (cid, data) \<Rightarrow>
             (case cid of
                KindInt64 colID \<Rightarrow>
                  (case DecodeOne data of
                     Inl e \<Rightarrow> Inl e
                   | Inr (v, rest) \<Rightarrow>
                       decodeRowPairs rest cols
                         (if cols colID \<noteq> None then row(colID \<mapsto> v) else row))
              | _ \<Rightarrow> Inl DecodeError)))"
  by pat_completeness auto
termination
proof (relation "measure (\<lambda>(b, cols, row). length b)", goal_cases)
  case 1
  show ?case by simp
next
  case (2 b cols row x cid data colID y v rest)
  then have "length data < length b" and "length rest < length data"
    by (auto dest: DecodeOne_shorter)
  then show ?case by simp
qed

declare decodeRowPairs.simps [simp del]

definition DecodeRow :: "byte list \<Rightarrow> (64 word \<rightharpoonup> fieldType) \<Rightarrow> codecError + (64 word \<rightharpoonup> rowDatum)" where
  "DecodeRow b cols =
     (if b = [] then Inr Map.empty
      else if length b = 1 \<and> b ! 0 = NilFlag then Inr Map.empty
      else decodeRowPairs b cols Map.empty)"


section \<open>Reading the rewritten plan, and the statements to compare with\<close>

text \<open>
  The element-wise comparison of two rows, and the cascade for an ordering operator, as
  the specification writes them:
  IF(a0 != b0, a0 op b0, IF(isnull(a0 != b0), NULL, <recurse on remaining elements>)),
  the last elements being compared by the operator itself.
\<close>

definition perElement :: "string \<Rightarrow> expression \<Rightarrow> expression \<Rightarrow> expression" where
  "perElement op a b = ScalarFunction op (NewFieldType TypeTiny) [a, b]"

fun ifCascade :: "string \<Rightarrow> expression list \<Rightarrow> expression list \<Rightarrow> expression" where
  "ifCascade op [a] [b] = perElement op a b"
| "ifCascade op (a # as) (b # bs) =
     ScalarFunction IfFunc (NewFieldType TypeTiny)
       [perElement NE a b, perElement op a b,
        ScalarFunction IfFunc (NewFieldType TypeTiny)
          [ScalarFunction IsNull (NewFieldType TypeTiny) [perElement NE a b], Null,
           ifCascade op as bs]]"
| "ifCascade op as bs = NilExpr"

text \<open>
  The cascade over the leading elements of two rows, ending in a given comparison \<open>z\<close>
  of what remains: the elements of the cascade are compared by plain \<open>!=\<close> and \<open>op\<close>
  nodes, whatever they are.
\<close>

fun ifCascadeOnto :: "string \<Rightarrow> expression list \<Rightarrow> expression list \<Rightarrow> expression \<Rightarrow> expression" where
  "ifCascadeOnto op (a # as) (b # bs) z =
     ScalarFunction IfFunc (NewFieldType TypeTiny)
       [perElement NE a b, perElement op a b,
        ScalarFunction IfFunc (NewFieldType TypeTiny)
          [ScalarFunction IsNull (NewFieldType TypeTiny) [perElement NE a b], Null,
           ifCascadeOnto op as bs z]]"
| "ifCascadeOnto op as bs z = z"

text \<open>
  Where the rewrite of a quantified comparison leaves its aggregation and its condition:
  as the inner plan and the only join predicate of a semi-join apply, or, in scalar
  context, as the inner plan of the apply below a projection and the projection's last
  expression.
\<close>

fun quantifierPlan :: "logicalPlan \<Rightarrow> (logicalPlan \<times> expression) option" where
  "quantifierPlan (LogicalApply jt l r sch [c]) = Some (r, c)"
| "quantifierPlan (LogicalProjection exprs sch (LogicalApply jt l r sch' conds)) =
     (if exprs = [] then None else Some (r, last exprs))"
| "quantifierPlan pl = None"

definition quantifierCondition :: "logicalPlan \<Rightarrow> expression option" where
  "quantifierCondition pl = map_option snd (quantifierPlan pl)"

definition quantifierAggregation :: "logicalPlan \<Rightarrow> logicalPlan option" where
  "quantifierAggregation pl = map_option fst (quantifierPlan pl)"

text \<open>
  The value of a quantified comparison, from the value \<open>cmpv\<close> of the comparison with
  the aggregate, the sum \<open>sumv\<close> of the subquery's is-null flags, whether the subquery
  is empty and whether the outer value is NULL. \<open>claimedAll\<close> and \<open>claimedAny\<close> follow
  the words of the specification; \<open>amendedAll\<close> is \<open>claimedAll\<close> without the NOT.
\<close>

definition innerNullAll :: "datum \<Rightarrow> datum" where
  "innerNullAll sumv = if3 (cmp3 (\<lambda>x y. x \<noteq> y) sumv (DInt 0)) DNull (DInt 1)"

definition innerNullAny :: "datum \<Rightarrow> datum" where
  "innerNullAny sumv = if3 (cmp3 (\<lambda>x y. x \<noteq> y) sumv (DInt 0)) DNull (DInt 0)"

definition claimedAll :: "datum \<Rightarrow> datum \<Rightarrow> bool \<Rightarrow> bool \<Rightarrow> datum" where
  "claimedAll cmpv sumv isEmpty aNull =
     (if isEmpty then DInt 1 else if aNull then DNull
      else and3 cmpv (not3 (innerNullAll sumv)))"

definition amendedAll :: "datum \<Rightarrow> datum \<Rightarrow> bool \<Rightarrow> bool \<Rightarrow> datum" where
  "amendedAll cmpv sumv isEmpty aNull =
     (if isEmpty then DInt 1 else if aNull then DNull
      else and3 cmpv (innerNullAll sumv))"

definition claimedAny :: "datum \<Rightarrow> datum \<Rightarrow> bool \<Rightarrow> bool \<Rightarrow> datum" where
  "claimedAny cmpv sumv isEmpty aNull =
     (if isEmpty then DInt 0 else if aNull then DNull
      else or3 cmpv (innerNullAny sumv))"

text \<open>
  The aggregate calls of an aggregation, and the comparison at the head of the condition
  of a quantified comparison: the first operand below the ANDs and ORs that
  buildQuantifierPlan wraps around it.
\<close>

fun planAggFuncs :: "logicalPlan \<Rightarrow> aggFuncDesc list" where
  "planAggFuncs (LogicalAggregation fs gs sch child) = fs"
| "planAggFuncs pl = []"

fun comparisonOf :: "expression \<Rightarrow> expression" where
  "comparisonOf (ScalarFunction f tp (a # as)) =
     (if f = LogicAnd \<or> f = LogicOr then comparisonOf a else ScalarFunction f tp (a # as))"
| "comparisonOf e = e"

text \<open>
  The plans that handleInSubquery joins with the outer plan. \<open>distinctPlan\<close> is the
  subquery deduplicated by DISTINCT: an aggregation that groups by every column of the
  subquery and takes the first row of each, all of its columns being referenced.
  \<open>inSubqueryOperand\<close> is the right operand of the equality, the only column of the
  subquery (marked as the operand of an IN when the IN is negated or its value is
  needed) or the row of its columns; \<open>inSubqueryInner\<close> is the subquery with that mark.
\<close>

definition distinctPlan :: "logicalPlan \<Rightarrow> logicalPlan" where
  "distinctPlan np =
     LogicalAggregation
       (map (\<lambda>col. NewAggFuncDesc AggFuncFirstRow [Column col] False) (Schema np))
       (map Column (Schema np))
       (map (\<lambda>col. col\<lparr>IsReferenced := True\<rparr>) (Schema np))
       np"

definition inSubqueryOperand :: "bool \<Rightarrow> bool \<Rightarrow> expression \<Rightarrow> logicalPlan \<Rightarrow> expression" where
  "inSubqueryOperand asScalar vNot lexpr np =
     (if length (Schema np) = 1 then
        Column (if vNot \<or> asScalar then markInOperand lexpr (Schema np ! 0) else Schema np ! 0)
      else ScalarFunction RowFunc (RetType (hd (Schema np))) (map Column (Schema np)))"

definition inSubqueryInner :: "bool \<Rightarrow> bool \<Rightarrow> expression \<Rightarrow> logicalPlan \<Rightarrow> logicalPlan" where
  "inSubqueryInner asScalar vNot lexpr np =
     (if length (Schema np) = 1 \<and> (vNot \<or> asScalar)
      then setFirstColumn (markInOperand lexpr (Schema np ! 0)) np else np)"


subsection \<open>Concrete inputs\<close>

text \<open>
  A statement over a plan without columns, a subquery with the one column \<open>a\<close>, the
  literal 5, and rows of the aggregation for the subquery values {3} and {}: the
  columns 2, 3 and 4 are the maximum, the sum of the is-null flags and the count.
\<close>

definition exOuterPlan :: logicalPlan where
  "exOuterPlan = ResultSetNode [] []"

definition exSubqueryColumn :: column where
  "exSubqueryColumn = newColumn ''a'' 1 (NewFieldType TypeLonglong)"

definition exSubquery :: logicalPlan where
  "exSubquery = ResultSetNode [exSubqueryColumn] []"

definition exRewriter :: rewriter where
  "exRewriter =
     \<lparr>er_ctxStack = [], er_p = exOuterPlan, er_schema = [], er_err = None,
      er_asScalar = False, b_optFlag = {}, ctx_AllowInSubqToJoinAndAgg = True,
      ctx_PlanColumnID = 1\<rparr>"

definition exFive :: expression where
  "exFive = Constant (DInt 5) (NewFieldType TypeLonglong)"

definition exRowOfThree :: "nat \<Rightarrow> datum" where
  "exRowOfThree i = (if i = 2 then DInt 3 else if i = 3 then DInt 0 else if i = 4 then DInt 1 else DNull)"

definition exRowOfNone :: "nat \<Rightarrow> datum" where
  "exRowOfNone i = (if i = 4 then DInt 0 else DNull)"

definition exNullOne :: "expression list" where
  "exNullOne = [Constant DNull (NewFieldType TypeNull), Constant (DInt 1) (NewFieldType TypeLonglong)]"

definition exOneTwo :: "expression list" where
  "exOneTwo = [Constant (DInt 1) (NewFieldType TypeLonglong), Constant (DInt 2) (NewFieldType TypeLonglong)]"

definition exTypeMap :: "64 word \<rightharpoonup> fieldType" where
  "exTypeMap = [1 \<mapsto> NewFieldType TypeLonglong, 2 \<mapsto> NewFieldType TypeVarchar]"

text \<open>
  The row of the aggregation of \<open>a != ANY\<close> for the subquery values {7}: the columns 2
  to 5 are the first row, the count of distinct values, the sum of the is-null flags and
  the count. A refinement of constants that changes nothing and a comparison type that
  is the type of the left operand. The stacks of \<open>NULL IN (5)\<close>, of
  \<open>NULL IN ((1, 2))\<close> and of \<open>IFNULL(id, 5)\<close> for a column \<open>id\<close> that is NOT NULL.
\<close>

definition exRowOfSeven :: "nat \<Rightarrow> datum" where
  "exRowOfSeven i = (if i = 2 then DInt 7 else if i = 3 then DInt 1 else if i = 4 then DInt 0
                     else if i = 5 then DInt 1 else DNull)"

definition exRefine :: "fieldType \<Rightarrow> expression \<Rightarrow> expression \<times> bool" where
  "exRefine ft e = (e, False)"

definition exCmpType :: "expression \<Rightarrow> expression \<Rightarrow> evalType" where
  "exCmpType a b = EvalType (GetType a)"

definition exNullInFive :: rewriter where
  "exNullInFive = exRewriter\<lparr>er_ctxStack := [Constant DNull (NewFieldType TypeNull), exFive]\<rparr>"

definition exNullInRow :: rewriter where
  "exNullInRow = exRewriter\<lparr>er_ctxStack :=
     [Constant DNull (NewFieldType TypeNull),
      ScalarFunction RowFunc (NewFieldType TypeLonglong) exOneTwo]\<rparr>"

definition exNotNullColumn :: column where
  "exNotNullColumn = newColumn ''id'' 1 \<lparr>Tp = TypeLonglong, NotNullFlag = True\<rparr>"

definition exIfnullCall :: rewriter where
  "exIfnullCall = exRewriter\<lparr>er_ctxStack := [Column exNotNullColumn, exFive]\<rparr>"


text \<open>
  The elements of the row ((1, 2), 5), whose first element is a row itself.
\<close>

definition exNestedRow :: "expression list" where
  "exNestedRow = [ScalarFunction RowFunc (NewFieldType TypeLonglong) exOneTwo, exFive]"

section \<open>Properties\<close>

subsection \<open>Auxiliary facts\<close>

lemma compose1: "composeConditionWithBinaryOp [a] f = a"
  by (subst composeConditionWithBinaryOp.simps) simp

lemma compose2:
  "composeConditionWithBinaryOp [a, b] f = ScalarFunction f (NewFieldType TypeTiny) [a, b]"
  by (subst composeConditionWithBinaryOp.simps) (simp add: compose1 NewFunctionInternal_def)

lemma compose3:
  "composeConditionWithBinaryOp [a, b, c] f =
     ScalarFunction f (NewFieldType TypeTiny) [a, ScalarFunction f (NewFieldType TypeTiny) [b, c]]"
  by (subst composeConditionWithBinaryOp.simps)
     (simp add: compose1 compose2 NewFunctionInternal_def)

lemma evalBuiltin_simps:
  "evalBuiltin LogicAnd [a, b] = and3 a b"
  "evalBuiltin LogicOr [a, b] = or3 a b"
  "evalBuiltin EQ [a, b] = cmp3 (\<lambda>x y. x = y) a b"
  "evalBuiltin NE [a, b] = cmp3 (\<lambda>x y. x \<noteq> y) a b"
  "evalBuiltin LT [a, b] = cmp3 (\<lambda>x y. x < y) a b"
  "evalBuiltin LE [a, b] = cmp3 (\<lambda>x y. x \<le> y) a b"
  "evalBuiltin GT [a, b] = cmp3 (\<lambda>x y. x > y) a b"
  "evalBuiltin GE [a, b] = cmp3 (\<lambda>x y. x \<ge> y) a b"
  "evalBuiltin NullEQ [a, b] = boolDatum (a = b)"
  "evalBuiltin IsNull [a] = boolDatum (a = DNull)"
  "evalBuiltin UnaryNot [a] = not3 a"
  "evalBuiltin IfFunc [c, t, e] = if3 c t e"
  by (simp_all add: evalBuiltin_def funcName_defs)

lemmas value_defs =
  and3_def or3_def not3_def if3_def cmp3_def boolDatum_def isTrue_def isFalse_def

lemma collectFuncs_Inr_comp: "collectFuncs (map (Inr \<circ> f) xs) = Inr (map f xs)"
  by (induction xs) auto

lemma map2_nth:
  "length as = length bs \<Longrightarrow> map2 f as bs = map (\<lambda>i. f (as ! i) (bs ! i)) [0..<length as]"
  by (rule nth_equalityI) auto

lemma constructBinaryOpFunction_scalar:
  "GetRowLen a = 1 \<Longrightarrow> GetRowLen b = 1 \<Longrightarrow> constructBinaryOpFunction a b op = Inr (perElement op a b)"
  by (simp add: constructBinaryOpFunction.simps newFunction_def perElement_def)

lemma constructBinaryOpFunction_elementwise:
  assumes len: "length as = length bs" and n: "length as \<noteq> 1"
    and sa: "\<forall>a\<in>set as. GetRowLen a = 1" and sb: "\<forall>b\<in>set bs. GetRowLen b = 1"
    and op: "op = EQ \<or> op = NE \<or> op = NullEQ"
  shows "constructBinaryOpFunction (ScalarFunction RowFunc tpl as) (ScalarFunction RowFunc tpr bs) op =
     Inr (composeConditionWithBinaryOp (map2 (perElement op) as bs)
            (if op = NE then LogicOr else LogicAnd))"
proof -
  have "map (\<lambda>i. (case GetFuncArg (ScalarFunction RowFunc tpl as) i of Inl e \<Rightarrow> Inl e | Inr li \<Rightarrow>
                    (case GetFuncArg (ScalarFunction RowFunc tpr bs) i of Inl e \<Rightarrow> Inl e | Inr ri \<Rightarrow>
                       constructBinaryOpFunction li ri op))) [0..<length as]
      = map Inr (map2 (perElement op) as bs)"
    using len sa sb by (simp add: map2_nth constructBinaryOpFunction_scalar)
  then show ?thesis using len n op
    by (subst constructBinaryOpFunction.simps)
       (auto simp add: collectFuncs_Inr_comp ComposeDNFCondition_def ComposeCNFCondition_def)
qed

lemma constructBinaryOpFunction_cascade:
  assumes "length as = length bs" and "2 \<le> length as"
    and "\<forall>a\<in>set as. GetRowLen a = 1" and "\<forall>b\<in>set bs. GetRowLen b = 1"
    and "op \<noteq> EQ" "op \<noteq> NE" "op \<noteq> NullEQ"
  shows "constructBinaryOpFunction (ScalarFunction RowFunc tpl as) (ScalarFunction RowFunc tpr bs) op =
     Inr (ifCascade op as bs)"
  using assms
proof (induction as arbitrary: bs)
  case Nil
  then show ?case by simp
next
  case (Cons a as)
  then obtain b bs' where bs: "bs = b # bs'" by (cases bs) auto
  show ?case
  proof (cases "length as = 1")
    case True
    then obtain a1 where as: "as = [a1]" by (cases as) auto
    with Cons.prems bs obtain b1 where bs': "bs' = [b1]" by (cases bs') auto
    show ?thesis using Cons.prems unfolding bs as bs'
      by (subst constructBinaryOpFunction.simps)
         (simp add: constructBinaryOpFunction_scalar newFunction_def NewFunctionInternal_def
            perElement_def)
  next
    case False
    with Cons.prems bs have l2: "2 \<le> length as" "length as = length bs'" by auto
    then obtain a1 a2 as' where as: "as = a1 # a2 # as'" by (cases as; cases "tl as") auto
    with l2 obtain b1 b2 bs'' where bs'': "bs' = b1 # b2 # bs''"
      by (cases bs'; cases "tl bs'") auto
    have ih: "constructBinaryOpFunction (ScalarFunction RowFunc tpl as)
                (ScalarFunction RowFunc tpr bs') op = Inr (ifCascade op as bs')"
      using Cons.prems l2 bs by (intro Cons.IH) auto
    show ?thesis using Cons.prems ih unfolding bs
      by (subst constructBinaryOpFunction.simps)
         (simp add: as bs'' newFunction_def NewFunctionInternal_def perElement_def)
  qed
qed

lemma constructBinaryOpFunction_width:
  assumes "length as \<noteq> length bs"
  shows "constructBinaryOpFunction (ScalarFunction RowFunc tpl as) (ScalarFunction RowFunc tpr bs) op =
     Inl (ErrOperandColumns (length as))"
  using assms by (subst constructBinaryOpFunction.simps) auto

lemma constructBinaryOpFunction_elements:
  assumes len: "length as = length bs" and n: "length as \<noteq> 1"
    and op: "op = EQ \<or> op = NE \<or> op = NullEQ"
  shows "constructBinaryOpFunction (ScalarFunction RowFunc tpl as) (ScalarFunction RowFunc tpr bs) op =
     map_sum id (\<lambda>fs. composeConditionWithBinaryOp fs (if op = NE then LogicOr else LogicAnd))
       (collectFuncs (map2 (\<lambda>a b. constructBinaryOpFunction a b op) as bs))"
proof -
  have m: "map (\<lambda>i. (case GetFuncArg (ScalarFunction RowFunc tpl as) i of Inl e \<Rightarrow> Inl e | Inr li \<Rightarrow>
                    (case GetFuncArg (ScalarFunction RowFunc tpr bs) i of Inl e \<Rightarrow> Inl e | Inr ri \<Rightarrow>
                       constructBinaryOpFunction li ri op))) [0..<length as]
      = map2 (\<lambda>a b. constructBinaryOpFunction a b op) as bs"
    using len by (simp add: map2_nth)
  show ?thesis using len n op m
    by (subst constructBinaryOpFunction.simps)
       (cases "collectFuncs (map2 (\<lambda>a b. constructBinaryOpFunction a b op) as bs)";
        auto simp add: ComposeDNFCondition_def ComposeCNFCondition_def)
qed

lemma constructBinaryOpFunction_cascade_onto:
  assumes "length as = length bs" and "2 \<le> length as"
    and "op \<noteq> EQ" "op \<noteq> NE" "op \<noteq> NullEQ"
  shows "constructBinaryOpFunction (ScalarFunction RowFunc tpl as) (ScalarFunction RowFunc tpr bs) op =
     map_sum id (ifCascadeOnto op (butlast as) (butlast bs))
       (constructBinaryOpFunction (last as) (last bs) op)"
  using assms
proof (induction as arbitrary: bs)
  case Nil
  then show ?case by simp
next
  case (Cons a as)
  then obtain b bs' where bs: "bs = b # bs'" by (cases bs) auto
  show ?case
  proof (cases "length as = 1")
    case True
    then obtain a1 where as: "as = [a1]" by (cases as) auto
    with Cons.prems bs obtain b1 where bs': "bs' = [b1]" by (cases bs') auto
    show ?thesis using Cons.prems unfolding bs as bs'
      by (subst constructBinaryOpFunction.simps)
         (cases "constructBinaryOpFunction a1 b1 op";
          simp add: newFunction_def NewFunctionInternal_def perElement_def)
  next
    case False
    with Cons.prems bs have l2: "2 \<le> length as" "length as = length bs'" by auto
    then obtain a1 a2 as' where as: "as = a1 # a2 # as'" by (cases as; cases "tl as") auto
    with l2 obtain b1 b2 bs'' where bs'': "bs' = b1 # b2 # bs''"
      by (cases bs'; cases "tl bs'") auto
    have ih: "constructBinaryOpFunction (ScalarFunction RowFunc tpl as)
                (ScalarFunction RowFunc tpr bs') op =
              map_sum id (ifCascadeOnto op (butlast as) (butlast bs'))
                (constructBinaryOpFunction (last as) (last bs') op)"
      using Cons.prems l2 bs by (intro Cons.IH) auto
    show ?thesis using Cons.prems ih unfolding bs
      by (subst constructBinaryOpFunction.simps)
         (cases "constructBinaryOpFunction (last as) (last bs') op";
          simp add: as bs'' newFunction_def NewFunctionInternal_def perElement_def)
  qed
qed

lemma quantifier_plan:
  "quantifierPlan (er_p (buildQuantifierPlan plan4Agg cond lexpr rexpr all er)) =
     Some (aggPlan (plan4Agg\<lparr>
             AggFuncs := AggFuncs plan4Agg @
               [NewAggFuncDesc AggFuncSum [ScalarFunction IsNull (NewFieldType TypeTiny) [rexpr]] False,
                NewAggFuncDesc AggFuncCount [One] False],
             agg_schema := agg_schema plan4Agg @
               [newColumn ''agg_col_sum'' (ctx_PlanColumnID er + 1) (NewFieldType TypeNewDecimal),
                newColumn ''agg_col_cnt'' (ctx_PlanColumnID er + 2) (NewFieldType TypeLonglong)]\<rparr>),
      if all then
        ComposeDNFCondition
          [ComposeCNFCondition [cond,
             ScalarFunction IfFunc (NewFieldType TypeTiny)
               [ScalarFunction NE (NewFieldType TypeTiny)
                  [Column (newColumn ''agg_col_sum'' (ctx_PlanColumnID er + 1) (NewFieldType TypeNewDecimal)), Zero],
                Null, One]],
           ScalarFunction EQ (NewFieldType TypeTiny)
             [Column (newColumn ''agg_col_cnt'' (ctx_PlanColumnID er + 2) (NewFieldType TypeLonglong)), Zero],
           ScalarFunction IfFunc (NewFieldType TypeTiny)
             [ScalarFunction IsNull (NewFieldType TypeTiny) [lexpr], Null, Zero]]
      else
        ComposeCNFCondition
          [ComposeDNFCondition [cond,
             ScalarFunction IfFunc (NewFieldType TypeTiny)
               [ScalarFunction NE (NewFieldType TypeTiny)
                  [Column (newColumn ''agg_col_sum'' (ctx_PlanColumnID er + 1) (NewFieldType TypeNewDecimal)), Zero],
                Null, Zero]],
           ScalarFunction NE (NewFieldType TypeTiny)
             [Column (newColumn ''agg_col_cnt'' (ctx_PlanColumnID er + 2) (NewFieldType TypeLonglong)), Zero],
           ScalarFunction IfFunc (NewFieldType TypeTiny)
             [ScalarFunction IsNull (NewFieldType TypeTiny) [lexpr], Null, One]])"
  by (simp add: buildQuantifierPlan_def Let_def AllocPlanColumnID_def buildSemiApply_def
      buildApplyWithJoinType_def NewFunctionInternal_def NewAggFuncDesc_def aggPlan_def
      funcName_defs split: prod.splits)

lemma comparison_null_left:
  "cmpFunc = LT \<or> cmpFunc = LE \<or> cmpFunc = GT \<or> cmpFunc = GE \<Longrightarrow>
   evalBuiltin cmpFunc [DNull, b] = DNull"
  by (auto simp: evalBuiltin_simps cmp3_def)

lemma comparison_three_valued:
  "cmpFunc = LT \<or> cmpFunc = LE \<or> cmpFunc = GT \<or> cmpFunc = GE \<Longrightarrow>
   evalBuiltin cmpFunc [a, b] = DNull \<or> evalBuiltin cmpFunc [a, b] = DInt 0
     \<or> evalBuiltin cmpFunc [a, b] = DInt 1"
  by (auto simp: evalBuiltin_simps cmp3_def boolDatum_def split: datum.splits)

lemma all_value:
  assumes "cv = DNull \<or> cv = DInt 0 \<or> cv = DInt 1" and "av = DNull \<longrightarrow> cv = DNull"
  shows "or3 (and3 cv (if3 (cmp3 (\<lambda>x y. x \<noteq> y) sumv (DInt 0)) DNull (DInt 1)))
             (or3 (cmp3 (\<lambda>x y. x = y) (DInt k) (DInt 0))
                  (if3 (boolDatum (av = DNull)) DNull (DInt 0)))
         = amendedAll cv sumv (k = 0) (av = DNull)"
  using assms
  by (cases sumv; cases av) (auto simp: amendedAll_def innerNullAll_def value_defs)

lemma any_value:
  assumes "cv = DNull \<or> cv = DInt 0 \<or> cv = DInt 1" and "av = DNull \<longrightarrow> cv = DNull"
  shows "and3 (or3 cv (if3 (cmp3 (\<lambda>x y. x \<noteq> y) sumv (DInt 0)) DNull (DInt 0)))
              (and3 (cmp3 (\<lambda>x y. x \<noteq> y) (DInt k) (DInt 0))
                    (if3 (boolDatum (av = DNull)) DNull (DInt 1)))
         = claimedAny cv sumv (k = 0) (av = DNull)"
  using assms
  by (cases sumv; cases av) (auto simp: claimedAny_def innerNullAny_def value_defs)

lemma bigEndian_step:
  "push_bit 8 (take_bit (8 * n) (drop_bit 8 (v::64 word))) OR ucast (ucast v :: byte)
     = take_bit (8 * Suc n) v"
  by (rule bit_word_eqI) (auto simp: bit_simps)

lemma fromBigEndian_bigEndian: "fromBigEndian (bigEndian n v) = take_bit (8 * n) v"
  by (induction n arbitrary: v) (simp_all add: fromBigEndian_def bigEndian_step del: mult_Suc_right)

lemma fromBigEndian_bigEndian_8: "fromBigEndian (bigEndian 8 v) = v"
  by (simp add: fromBigEndian_bigEndian take_bit_word_eq_self)

lemma length_bigEndian: "length (bigEndian n v) = n"
  by (induction n arbitrary: v) auto

lemma DecodeCmpUintToInt_EncodeIntToCmpUint: "DecodeCmpUintToInt (EncodeIntToCmpUint v) = v"
  by (simp add: DecodeCmpUintToInt_def EncodeIntToCmpUint_def xor.assoc)

lemma DecodeInt_EncodeInt: "DecodeInt (bigEndian 8 (EncodeIntToCmpUint v) @ rest) = Inr (rest, v)"
  by (simp add: DecodeInt_def length_bigEndian fromBigEndian_bigEndian_8
      DecodeCmpUintToInt_EncodeIntToCmpUint)


lemma bqp_err: "er_err er = None \<Longrightarrow> er_err (buildQuantifierPlan plan4Agg cond lexpr rexpr all er) = None"
  by (simp add: buildQuantifierPlan_def Let_def AllocPlanColumnID_def buildSemiApply_def
      buildApplyWithJoinType_def split: prod.splits)

lemma bqp_stack: "er_ctxStack (buildQuantifierPlan plan4Agg cond lexpr rexpr all er) = er_ctxStack er"
  by (simp add: buildQuantifierPlan_def Let_def AllocPlanColumnID_def buildSemiApply_def
      buildApplyWithJoinType_def split: prod.splits)

lemma bqp_asScalar: "er_asScalar (buildQuantifierPlan plan4Agg cond lexpr rexpr all er) = er_asScalar er"
  by (simp add: buildQuantifierPlan_def Let_def AllocPlanColumnID_def buildSemiApply_def
      buildApplyWithJoinType_def split: prod.splits)

lemma bqp_schema: "er_asScalar er \<Longrightarrow> Schema (er_p (buildQuantifierPlan plan4Agg cond lexpr rexpr all er)) \<noteq> []"
  by (simp add: buildQuantifierPlan_def Let_def AllocPlanColumnID_def buildSemiApply_def
      buildApplyWithJoinType_def split: prod.splits)

lemma useLastColumn_p: "er_p (useLastColumn er) = er_p er"
  by (simp add: useLastColumn_def)

lemma useLastColumn_err:
  "(er_asScalar er \<longrightarrow> Schema (er_p er) \<noteq> [] \<and> er_ctxStack er \<noteq> []) \<Longrightarrow>
   er_err (useLastColumn er) = er_err er"
  by (auto simp add: useLastColumn_def)

lemma hocs_facts:
  "er_err er = None \<Longrightarrow> er_err (handleOtherComparableSubq lexpr rexpr np useMin cmpFunc all er) = None"
  "er_ctxStack (handleOtherComparableSubq lexpr rexpr np useMin cmpFunc all er) = er_ctxStack er"
  "er_asScalar (handleOtherComparableSubq lexpr rexpr np useMin cmpFunc all er) = er_asScalar er"
  "er_asScalar er \<Longrightarrow> Schema (er_p (handleOtherComparableSubq lexpr rexpr np useMin cmpFunc all er)) \<noteq> []"
  by (simp_all add: handleOtherComparableSubq_def Let_def AllocPlanColumnID_def bqp_err bqp_stack
      bqp_asScalar bqp_schema split: prod.splits)

lemma hocs_plan:
  "quantifierPlan (er_p (handleOtherComparableSubq lexpr rexpr np useMin cmpFunc all er)) =
     Some (LogicalAggregation
             [NewAggFuncDesc (if useMin then AggFuncMin else AggFuncMax) [rexpr] False,
              NewAggFuncDesc AggFuncSum [ScalarFunction IsNull (NewFieldType TypeTiny) [rexpr]] False,
              NewAggFuncDesc AggFuncCount [One] False]
             []
             [newColumn ''agg_Col_0'' (ctx_PlanColumnID er + 1) (GetType rexpr),
              newColumn ''agg_col_sum'' (ctx_PlanColumnID er + 2) (NewFieldType TypeNewDecimal),
              newColumn ''agg_col_cnt'' (ctx_PlanColumnID er + 3) (NewFieldType TypeLonglong)]
             np,
           if all then
             ComposeDNFCondition
               [ComposeCNFCondition
                  [ScalarFunction cmpFunc (NewFieldType TypeTiny)
                     [lexpr, Column (newColumn ''agg_Col_0'' (ctx_PlanColumnID er + 1) (GetType rexpr))],
                   ScalarFunction IfFunc (NewFieldType TypeTiny)
                     [ScalarFunction NE (NewFieldType TypeTiny)
                        [Column (newColumn ''agg_col_sum'' (ctx_PlanColumnID er + 2) (NewFieldType TypeNewDecimal)), Zero],
                      Null, One]],
                ScalarFunction EQ (NewFieldType TypeTiny)
                  [Column (newColumn ''agg_col_cnt'' (ctx_PlanColumnID er + 3) (NewFieldType TypeLonglong)), Zero],
                ScalarFunction IfFunc (NewFieldType TypeTiny)
                  [ScalarFunction IsNull (NewFieldType TypeTiny) [lexpr], Null, Zero]]
           else
             ComposeCNFCondition
               [ComposeDNFCondition
                  [ScalarFunction cmpFunc (NewFieldType TypeTiny)
                     [lexpr, Column (newColumn ''agg_Col_0'' (ctx_PlanColumnID er + 1) (GetType rexpr))],
                   ScalarFunction IfFunc (NewFieldType TypeTiny)
                     [ScalarFunction NE (NewFieldType TypeTiny)
                        [Column (newColumn ''agg_col_sum'' (ctx_PlanColumnID er + 2) (NewFieldType TypeNewDecimal)), Zero],
                      Null, Zero]],
                ScalarFunction NE (NewFieldType TypeTiny)
                  [Column (newColumn ''agg_col_cnt'' (ctx_PlanColumnID er + 3) (NewFieldType TypeLonglong)), Zero],
                ScalarFunction IfFunc (NewFieldType TypeTiny)
                  [ScalarFunction IsNull (NewFieldType TypeTiny) [lexpr], Null, One]])"
  unfolding handleOtherComparableSubq_def Let_def
  by (simp add: AllocPlanColumnID_def quantifier_plan aggPlan_def NewAggFuncDesc_def
      NewFunctionInternal_def funcName_defs eval_nat_numeral split: prod.splits)

lemma hneany_plan:
  "quantifierPlan (er_p (handleNEAny lexpr rexpr np er)) =
     Some (LogicalAggregation
             [NewAggFuncDesc AggFuncFirstRow [rexpr] False,
              NewAggFuncDesc AggFuncCount [rexpr] True,
              NewAggFuncDesc AggFuncSum [ScalarFunction IsNull (NewFieldType TypeTiny) [rexpr]] False,
              NewAggFuncDesc AggFuncCount [One] False]
             []
             [newColumn ''col_firstRow'' (ctx_PlanColumnID er + 1) (GetType rexpr),
              newColumn ''col_count'' (ctx_PlanColumnID er + 2) (NewFieldType TypeLonglong),
              newColumn ''agg_col_sum'' (ctx_PlanColumnID er + 3) (NewFieldType TypeNewDecimal),
              newColumn ''agg_col_cnt'' (ctx_PlanColumnID er + 4) (NewFieldType TypeLonglong)]
             np,
           ComposeCNFCondition
             [ComposeDNFCondition
                [ComposeDNFCondition
                   [ScalarFunction GT (NewFieldType TypeTiny)
                      [Column (newColumn ''col_count'' (ctx_PlanColumnID er + 2) (NewFieldType TypeLonglong)), One],
                    ScalarFunction NE (NewFieldType TypeTiny)
                      [lexpr, Column (newColumn ''col_firstRow'' (ctx_PlanColumnID er + 1) (GetType rexpr))]],
                 ScalarFunction IfFunc (NewFieldType TypeTiny)
                   [ScalarFunction NE (NewFieldType TypeTiny)
                      [Column (newColumn ''agg_col_sum'' (ctx_PlanColumnID er + 3) (NewFieldType TypeNewDecimal)), Zero],
                    Null, Zero]],
              ScalarFunction NE (NewFieldType TypeTiny)
                [Column (newColumn ''agg_col_cnt'' (ctx_PlanColumnID er + 4) (NewFieldType TypeLonglong)), Zero],
              ScalarFunction IfFunc (NewFieldType TypeTiny)
                [ScalarFunction IsNull (NewFieldType TypeTiny) [lexpr], Null, One]])"
  unfolding handleNEAny_def Let_def
  by (simp add: AllocPlanColumnID_def quantifier_plan aggPlan_def NewAggFuncDesc_def
      NewFunctionInternal_def funcName_defs eval_nat_numeral split: prod.splits)

lemma ne_any_value:
  "isTrue (or3 (cmp3 (\<lambda>x y. x > y) (DInt k) (DInt 1)) (cmp3 (\<lambda>x y. x \<noteq> y) av fv)) =
     (1 < k \<or> (\<exists>x y. av = DInt x \<and> fv = DInt y \<and> x \<noteq> y))"
  by (cases av; cases fv) (auto simp: value_defs)

lemma zip_map_same: "map (\<lambda>(col, f). col\<lparr>RetType := RetTp f\<rparr>)
     (zip xs (map (\<lambda>col. NewAggFuncDesc AggFuncFirstRow [Column col] False) xs)) = xs"
  by (induction xs) (auto simp: NewAggFuncDesc_def funcName_defs)


subsection \<open>Quantified comparisons\<close>

text \<open>
  C1, as amended. For a comparison \<open>a op ALL (subq)\<close> or \<open>a op ANY (subq)\<close> with op one
  of <, <=, >, >=, the condition that handleOtherComparableSubq leaves in the plan has,
  on every row of the aggregation whose count is an integer \<open>k\<close>, this value. For ALL:
  TRUE when the subquery is empty (\<open>k = 0\<close>), NULL when it is not empty and \<open>a\<close> is NULL,
  and else cmp(a, agg) AND (sum(subq_is_null) != 0 ? NULL : TRUE), with no NOT around
  the second operand. For ANY: FALSE when the subquery is empty, NULL when it is not
  empty and \<open>a\<close> is NULL, and else cmp(a, agg) OR (sum(subq_is_null) != 0 ? NULL : FALSE).
  The columns of the aggregate, of the sum and of the count are the three the rewrite
  allocates.
\<close>

theorem quantified_comparison_condition:
  assumes op: "cmpFunc = LT \<or> cmpFunc = LE \<or> cmpFunc = GT \<or> cmpFunc = GE"
    and cnt: "row (ctx_PlanColumnID er + 3) = DInt k"
  shows "map_option (Eval row)
           (quantifierCondition (er_p (handleOtherComparableSubq lexpr rexpr np useMin cmpFunc all er))) =
         Some ((if all then amendedAll else claimedAny)
                 (evalBuiltin cmpFunc [Eval row lexpr, row (ctx_PlanColumnID er + 1)])
                 (row (ctx_PlanColumnID er + 2)) (k = 0) (Eval row lexpr = DNull))"
proof -
  let ?cv = "evalBuiltin cmpFunc [Eval row lexpr, row (Suc (ctx_PlanColumnID er))]"
  have cv: "?cv = DNull \<or> ?cv = DInt 0 \<or> ?cv = DInt 1" using op by (rule comparison_three_valued)
  have an: "Eval row lexpr = DNull \<longrightarrow> ?cv = DNull" using op by (simp add: comparison_null_left)
  have n3: "ctx_PlanColumnID er + 3 = Suc (Suc (Suc (ctx_PlanColumnID er)))"
    and n2: "ctx_PlanColumnID er + 2 = Suc (Suc (ctx_PlanColumnID er))" by simp_all
  have cnt': "row (Suc (Suc (Suc (ctx_PlanColumnID er)))) = DInt k" using cnt unfolding n3 .
  show ?thesis
    unfolding handleOtherComparableSubq_def quantifierCondition_def Let_def n2
    by (simp add: AllocPlanColumnID_def quantifier_plan ComposeCNFCondition_def
        ComposeDNFCondition_def compose2 compose3 evalBuiltin_simps newColumn_def
        NewFunctionInternal_def Zero_def One_def Null_def cnt'
        all_value [OF cv an] any_value [OF cv an])
qed

text \<open>
  C1, witness: 5 > ALL over an empty subquery is TRUE and 5 > ANY over an empty subquery
  is FALSE.
\<close>

theorem quantified_comparison_condition_witness:
  "(GT = LT \<or> GT = LE \<or> GT = GT \<or> GT = GE)
   \<and> exRowOfNone (ctx_PlanColumnID exRewriter + 3) = DInt 0
   \<and> map_option (Eval exRowOfNone)
        (quantifierCondition (er_p (handleOtherComparableSubq exFive (Column exSubqueryColumn) exSubquery
           False GT True exRewriter))) = Some (DInt 1)
   \<and> map_option (Eval exRowOfNone)
        (quantifierCondition (er_p (handleOtherComparableSubq exFive (Column exSubqueryColumn) exSubquery
           True GT False exRewriter))) = Some (DInt 0)"
proof -
  have op: "GT = LT \<or> GT = LE \<or> GT = GT \<or> GT = GE" by simp
  have cnt: "exRowOfNone (ctx_PlanColumnID exRewriter + 3) = DInt 0"
    by (simp add: exRowOfNone_def exRewriter_def)
  show ?thesis
    using op cnt
      quantified_comparison_condition [where cmpFunc = GT and row = exRowOfNone and er = exRewriter
        and k = 0 and lexpr = exFive and rexpr = "Column exSubqueryColumn" and np = exSubquery
        and useMin = False and all = True]
      quantified_comparison_condition [where cmpFunc = GT and row = exRowOfNone and er = exRewriter
        and k = 0 and lexpr = exFive and rexpr = "Column exSubqueryColumn" and np = exSubquery
        and useMin = True and all = False]
    by (simp add: amendedAll_def claimedAny_def)
qed

text \<open>
  C1, counterexample to the claim as stated (ALL with NOT): for 5 > ALL over the
  subquery {3} the condition of the code is TRUE, while
  cmp(a, agg) AND NOT(sum(subq_is_null) != 0 ? NULL : TRUE) is FALSE.
\<close>

theorem all_condition_negation_counterexample:
  "map_option (Eval exRowOfThree)
     (quantifierCondition (er_p (handleOtherComparableSubq exFive (Column exSubqueryColumn) exSubquery
        False GT True exRewriter))) = Some (DInt 1)
   \<and> claimedAll (evalBuiltin GT [Eval exRowOfThree exFive, exRowOfThree 2]) (exRowOfThree 3) False False
       = DInt 0"
  unfolding handleOtherComparableSubq_def quantifierCondition_def Let_def
  by (simp add: AllocPlanColumnID_def quantifier_plan ComposeCNFCondition_def
        ComposeDNFCondition_def compose2 compose3 evalBuiltin_simps newColumn_def
        NewFunctionInternal_def Zero_def One_def Null_def exRowOfThree_def exRewriter_def
        exFive_def claimedAll_def innerNullAll_def value_defs)

subsection \<open>Comparison of rows\<close>

text \<open>
  C5, as amended. For two rows of equal width n > 1, whatever their elements are,
  constructBinaryOpFunction produces: for \<open>!=\<close> the OR, and for \<open>=\<close> and for \<open><=>\<close> the
  AND, of the n per-element comparisons by the same operator (so \<open><=>\<close> for \<open><=>\<close>, not
  \<open>=\<close>), each of them built by constructBinaryOpFunction itself, so that two elements
  that are rows are compared as rows, and the first pair of elements whose comparison
  fails makes the whole fail with that error; for any other operator the nested cascade
  IF(a0 != b0, a0 op b0, IF(isnull(a0 != b0), NULL, <rest>)) over the leading elements,
  which ends in the comparison of the two last elements, again built by
  constructBinaryOpFunction itself. When no element is a row, these are the OR of the
  \<open>!=\<close>, the AND of the \<open>=\<close> or of the \<open><=>\<close> of the elements, and the cascade that ends
  in \<open>op\<close> of the last elements. For two rows of unequal width it fails with the
  operand-columns error.
\<close>

theorem constructBinaryOpFunction_rows:
  "(length as = length bs \<and> 1 < length as \<longrightarrow>
    constructBinaryOpFunction (ScalarFunction RowFunc tpl as) (ScalarFunction RowFunc tpr bs) op =
      (if op = NE then
         map_sum id ComposeDNFCondition
           (collectFuncs (map2 (\<lambda>a b. constructBinaryOpFunction a b NE) as bs))
       else if op = EQ \<or> op = NullEQ then
         map_sum id ComposeCNFCondition
           (collectFuncs (map2 (\<lambda>a b. constructBinaryOpFunction a b op) as bs))
       else
         map_sum id (ifCascadeOnto op (butlast as) (butlast bs))
           (constructBinaryOpFunction (last as) (last bs) op)))
   \<and> (length as = length bs \<and> 1 < length as
      \<and> (\<forall>a\<in>set as. GetRowLen a = 1) \<and> (\<forall>b\<in>set bs. GetRowLen b = 1) \<longrightarrow>
    constructBinaryOpFunction (ScalarFunction RowFunc tpl as) (ScalarFunction RowFunc tpr bs) op =
      Inr (if op = NE then ComposeDNFCondition (map2 (perElement NE) as bs)
           else if op = EQ \<or> op = NullEQ then ComposeCNFCondition (map2 (perElement op) as bs)
           else ifCascade op as bs))
   \<and> (length as \<noteq> length bs \<longrightarrow>
    constructBinaryOpFunction (ScalarFunction RowFunc tpl as) (ScalarFunction RowFunc tpr bs) op =
      Inl (ErrOperandColumns (length as)))"
proof (intro conjI impI)
  assume a: "length as = length bs \<and> 1 < length as"
  show "constructBinaryOpFunction (ScalarFunction RowFunc tpl as) (ScalarFunction RowFunc tpr bs) op =
      (if op = NE then
         map_sum id ComposeDNFCondition
           (collectFuncs (map2 (\<lambda>a b. constructBinaryOpFunction a b NE) as bs))
       else if op = EQ \<or> op = NullEQ then
         map_sum id ComposeCNFCondition
           (collectFuncs (map2 (\<lambda>a b. constructBinaryOpFunction a b op) as bs))
       else
         map_sum id (ifCascadeOnto op (butlast as) (butlast bs))
           (constructBinaryOpFunction (last as) (last bs) op))"
  proof (cases "op = EQ \<or> op = NE \<or> op = NullEQ")
    case True
    have c: "ComposeDNFCondition = (\<lambda>fs. composeConditionWithBinaryOp fs LogicOr)"
      "ComposeCNFCondition = (\<lambda>fs. composeConditionWithBinaryOp fs LogicAnd)"
      by (auto simp: ComposeDNFCondition_def ComposeCNFCondition_def)
    from a have e: "constructBinaryOpFunction (ScalarFunction RowFunc tpl as) (ScalarFunction RowFunc tpr bs) op =
        map_sum id (\<lambda>fs. composeConditionWithBinaryOp fs (if op = NE then LogicOr else LogicAnd))
          (collectFuncs (map2 (\<lambda>a b. constructBinaryOpFunction a b op) as bs))"
      using True by (intro constructBinaryOpFunction_elements) auto
    show ?thesis unfolding e c using True by auto
  next
    case False
    with a show ?thesis
      by (simp add: constructBinaryOpFunction_cascade_onto)
  qed
next
  assume a: "length as = length bs \<and> 1 < length as
      \<and> (\<forall>a\<in>set as. GetRowLen a = 1) \<and> (\<forall>b\<in>set bs. GetRowLen b = 1)"
  show "constructBinaryOpFunction (ScalarFunction RowFunc tpl as) (ScalarFunction RowFunc tpr bs) op =
      Inr (if op = NE then ComposeDNFCondition (map2 (perElement NE) as bs)
           else if op = EQ \<or> op = NullEQ then ComposeCNFCondition (map2 (perElement op) as bs)
           else ifCascade op as bs)"
  proof (cases "op = EQ \<or> op = NE \<or> op = NullEQ")
    case True
    with a show ?thesis
      by (auto simp: constructBinaryOpFunction_elementwise ComposeDNFCondition_def
          ComposeCNFCondition_def)
  next
    case False
    with a show ?thesis
      by (simp add: constructBinaryOpFunction_cascade)
  qed
next
  assume "length as \<noteq> length bs"
  then show "constructBinaryOpFunction (ScalarFunction RowFunc tpl as) (ScalarFunction RowFunc tpr bs) op =
      Inl (ErrOperandColumns (length as))"
    by (rule constructBinaryOpFunction_width)
qed

text \<open>
  C5, witness: ((1, 2), 5) = ((1, 2), 5) gives the AND of the comparison of the rows
  (1, 2), itself the AND of two \<open>=\<close>, with 5 = 5; (NULL, 1) < (1, 2) gives the cascade,
  (NULL, 1) <=> (1, 2) the AND of the two \<open><=>\<close> comparisons, and (NULL, 1) < (5, 1, 2)
  the error.
\<close>

theorem constructBinaryOpFunction_rows_witness:
  "constructBinaryOpFunction (ScalarFunction RowFunc (NewFieldType TypeLonglong) exNestedRow)
      (ScalarFunction RowFunc (NewFieldType TypeLonglong) exNestedRow) EQ =
     Inr (ComposeCNFCondition
            [ComposeCNFCondition (map2 (perElement EQ) exOneTwo exOneTwo), perElement EQ exFive exFive])
   \<and> constructBinaryOpFunction (ScalarFunction RowFunc (NewFieldType TypeNull) exNullOne)
      (ScalarFunction RowFunc (NewFieldType TypeLonglong) exOneTwo) LT =
     Inr (ifCascade LT exNullOne exOneTwo)
   \<and> constructBinaryOpFunction (ScalarFunction RowFunc (NewFieldType TypeNull) exNullOne)
      (ScalarFunction RowFunc (NewFieldType TypeLonglong) exOneTwo) NullEQ =
     Inr (ComposeCNFCondition (map2 (perElement NullEQ) exNullOne exOneTwo))
   \<and> constructBinaryOpFunction (ScalarFunction RowFunc (NewFieldType TypeNull) exNullOne)
      (ScalarFunction RowFunc (NewFieldType TypeLonglong) (exFive # exOneTwo)) LT =
     Inl (ErrOperandColumns 2)"
proof -
  have inner: "constructBinaryOpFunction (ScalarFunction RowFunc (NewFieldType TypeLonglong) exOneTwo)
      (ScalarFunction RowFunc (NewFieldType TypeLonglong) exOneTwo) EQ =
      Inr (ComposeCNFCondition (map2 (perElement EQ) exOneTwo exOneTwo))"
    using constructBinaryOpFunction_elementwise [of exOneTwo exOneTwo EQ]
    by (simp add: exOneTwo_def ComposeCNFCondition_def funcName_defs)
  have five: "constructBinaryOpFunction exFive exFive EQ = Inr (perElement EQ exFive exFive)"
    by (simp add: constructBinaryOpFunction_scalar exFive_def)
  have nested: "constructBinaryOpFunction (ScalarFunction RowFunc (NewFieldType TypeLonglong) exNestedRow)
      (ScalarFunction RowFunc (NewFieldType TypeLonglong) exNestedRow) EQ =
     Inr (ComposeCNFCondition
            [ComposeCNFCondition (map2 (perElement EQ) exOneTwo exOneTwo), perElement EQ exFive exFive])"
    using constructBinaryOpFunction_rows [of exNestedRow exNestedRow "NewFieldType TypeLonglong"
        "NewFieldType TypeLonglong" EQ, THEN conjunct1]
    by (simp add: exNestedRow_def inner five) (simp add: funcName_defs)
  show ?thesis
    using nested
      constructBinaryOpFunction_rows [of exNullOne exOneTwo "NewFieldType TypeNull"
        "NewFieldType TypeLonglong" LT, THEN conjunct2, THEN conjunct1]
      constructBinaryOpFunction_rows [of exNullOne exOneTwo "NewFieldType TypeNull"
        "NewFieldType TypeLonglong" NullEQ, THEN conjunct2, THEN conjunct1]
      constructBinaryOpFunction_rows [of exNullOne "exFive # exOneTwo" "NewFieldType TypeNull"
        "NewFieldType TypeLonglong" LT, THEN conjunct2, THEN conjunct2]
    by (simp add: exNullOne_def exOneTwo_def funcName_defs)
qed

text \<open>
  C5, counterexample to the claim as stated. \<open><=>\<close> is not the AND of per-element \<open>=\<close>:
  (NULL, 1) <=> (NULL, 1) is not rewritten to NULL = NULL AND 1 = 1; the expression that
  is built has the value TRUE, that one has the value NULL. And two rows of equal width
  need not produce an expression: ((1, 2), 5) = (1, 2) compares the row (1, 2) with 1
  and fails with the operand-columns error.
\<close>

theorem nulleq_rows_counterexample:
  "constructBinaryOpFunction (ScalarFunction RowFunc (NewFieldType TypeNull) exNullOne)
      (ScalarFunction RowFunc (NewFieldType TypeNull) exNullOne) NullEQ
     \<noteq> Inr (ComposeCNFCondition (map2 (perElement EQ) exNullOne exNullOne))
   \<and> map_sum id (Eval exRowOfNone)
       (constructBinaryOpFunction (ScalarFunction RowFunc (NewFieldType TypeNull) exNullOne)
          (ScalarFunction RowFunc (NewFieldType TypeNull) exNullOne) NullEQ) = Inr (DInt 1)
   \<and> Eval exRowOfNone (ComposeCNFCondition (map2 (perElement EQ) exNullOne exNullOne)) = DNull
   \<and> length exNestedRow = length exOneTwo
   \<and> constructBinaryOpFunction (ScalarFunction RowFunc (NewFieldType TypeLonglong) exNestedRow)
        (ScalarFunction RowFunc (NewFieldType TypeLonglong) exOneTwo) EQ = Inl (ErrOperandColumns 2)"
proof -
  have "constructBinaryOpFunction (ScalarFunction RowFunc (NewFieldType TypeNull) exNullOne)
      (ScalarFunction RowFunc (NewFieldType TypeNull) exNullOne) NullEQ =
      Inr (composeConditionWithBinaryOp (map2 (perElement NullEQ) exNullOne exNullOne) LogicAnd)"
    using constructBinaryOpFunction_elementwise [of exNullOne exNullOne NullEQ]
    by (simp add: exNullOne_def funcName_defs)
  then have first: "constructBinaryOpFunction (ScalarFunction RowFunc (NewFieldType TypeNull) exNullOne)
      (ScalarFunction RowFunc (NewFieldType TypeNull) exNullOne) NullEQ
     \<noteq> Inr (ComposeCNFCondition (map2 (perElement EQ) exNullOne exNullOne))
   \<and> map_sum id (Eval exRowOfNone)
       (constructBinaryOpFunction (ScalarFunction RowFunc (NewFieldType TypeNull) exNullOne)
          (ScalarFunction RowFunc (NewFieldType TypeNull) exNullOne) NullEQ) = Inr (DInt 1)
   \<and> Eval exRowOfNone (ComposeCNFCondition (map2 (perElement EQ) exNullOne exNullOne)) = DNull"
    by (simp add: exNullOne_def ComposeCNFCondition_def compose2 perElement_def evalBuiltin_simps
        value_defs) (simp add: funcName_defs)
  have el: "constructBinaryOpFunction (ScalarFunction RowFunc (NewFieldType TypeLonglong) exOneTwo)
      (Constant (DInt 1) (NewFieldType TypeLonglong)) EQ = Inl (ErrOperandColumns 2)"
    by (subst constructBinaryOpFunction.simps) (simp add: exOneTwo_def)
  have "constructBinaryOpFunction (ScalarFunction RowFunc (NewFieldType TypeLonglong) exNestedRow)
        (ScalarFunction RowFunc (NewFieldType TypeLonglong) exOneTwo) EQ = Inl (ErrOperandColumns 2)"
    using constructBinaryOpFunction_elements [of exNestedRow exOneTwo EQ]
    by (simp add: exNestedRow_def exOneTwo_def el [unfolded exOneTwo_def])
  with first show ?thesis by (simp add: exNestedRow_def exOneTwo_def)
qed

subsection \<open>Codec\<close>

text \<open>
  C7. For every table id and handle (signed 64-bit integers, so 0, negative values and
  the boundary values among them), DecodeRecordKey (EncodeRowKeyWithHandle tableID
  handle) returns (tableID, handle) and no error.
\<close>

theorem record_key_roundtrip:
  "DecodeRecordKey (EncodeRowKeyWithHandle tableID handle) = Inr (tableID, handle)"
proof -
  have key: "EncodeRowKeyWithHandle tableID handle =
      tablePrefix @ bigEndian 8 (EncodeIntToCmpUint tableID) @ recordPrefixSep
        @ bigEndian 8 (EncodeIntToCmpUint handle)"
    by (simp add: EncodeRowKeyWithHandle_def EncodeRecordKey_def EncodeTablePrefix_def EncodeInt_def)
  have len: "length (EncodeRowKeyWithHandle tableID handle) = recordRowKeyLen"
    by (simp add: key length_bigEndian tablePrefix_def recordPrefixSep_def recordRowKeyLen_def)
  have d1: "DecodeInt (drop (Suc 0) (EncodeRowKeyWithHandle tableID handle)) =
      Inr (recordPrefixSep @ bigEndian 8 (EncodeIntToCmpUint handle), tableID)"
    by (simp add: key tablePrefix_def DecodeInt_EncodeInt)
  have d2: "DecodeInt (bigEndian 8 (EncodeIntToCmpUint handle)) = Inr ([], handle)"
    using DecodeInt_EncodeInt [of handle "[]"] by simp
  have t: "take (Suc 0) (EncodeRowKeyWithHandle tableID handle) = tablePrefix"
    by (simp add: key tablePrefix_def)
  have sep: "length recordPrefixSep = 2" "take 2 recordPrefixSep = recordPrefixSep"
    "drop 2 recordPrefixSep = []"
    by (simp_all add: recordPrefixSep_def)
  show ?thesis
    by (simp add: DecodeRecordKey_def len d1 d2 t sep)
qed

text \<open>
  C7, witness: the pairs (55, MaxUint32), (-1, MaxInt64) and (0, 0).
\<close>

theorem record_key_roundtrip_witness:
  "DecodeRecordKey (EncodeRowKeyWithHandle 55 4294967295) = Inr (55, 4294967295)
   \<and> DecodeRecordKey (EncodeRowKeyWithHandle (- 1) 9223372036854775807) = Inr (- 1, 9223372036854775807)
   \<and> DecodeRecordKey (EncodeRowKeyWithHandle 0 0) = Inr (0, 0)"
  using record_key_roundtrip [of 55 4294967295]
    record_key_roundtrip [of "- 1" 9223372036854775807]
    record_key_roundtrip [of 0 0]
  by simp

text \<open>
  C8. EncodeRow of the empty row gives exactly one byte, and DecodeRow of that byte
  against any requested type map succeeds with the empty mapping.
\<close>

theorem empty_row_codec:
  "EncodeRow [] [] = Inr [NilFlag] \<and> length [NilFlag] = 1
   \<and> DecodeRow [NilFlag] cols = Inr Map.empty"
  by (simp add: EncodeRow_def DecodeRow_def)

text \<open>
  C8, witness: the type map with the columns 1 and 2.
\<close>

theorem empty_row_codec_witness:
  "EncodeRow [] [] = Inr [NilFlag] \<and> length [NilFlag] = 1
   \<and> DecodeRow [NilFlag] exTypeMap = Inr Map.empty"
  using empty_row_codec [of exTypeMap] by simp

subsection \<open>The aggregate of a quantified comparison\<close>

text \<open>
  C2. For a comparison \<open>a op ANY (subq)\<close> or \<open>a op ALL (subq)\<close> with op one of <, <=, >,
  >=, a left operand of width 1 whose traversal raises no error and a subquery with one
  column, handleCompareSubquery raises no error, aggregates the subquery column by one
  MIN or MAX (beside the sum of the is-null flags and the count that serve the NULL and
  empty checks), and compares \<open>a\<close> with the column of that aggregate by the operator
  itself. The aggregate is MIN exactly when (op is < or <= and the quantifier is ALL) or
  (op is > or >= and the quantifier is ANY), and MAX otherwise.
\<close>

theorem compare_subquery_aggregate:
  assumes op: "vOp = opLT \<or> vOp = opLE \<or> vOp = opGT \<or> vOp = opGE"
    and noerr: "er_err (visitL erw) = None"
    and stack: "er_ctxStack (visitL erw) = stk @ [lexpr]"
    and scalar: "GetRowLen lexpr = 1"
    and onecol: "Schema np = [col]"
  shows "er_err (handleCompareSubquery visitL vOp (SubqueryExpr (Inr np)) vAll erw) = None
    \<and> map_option planAggFuncs
        (quantifierAggregation (er_p (handleCompareSubquery visitL vOp (SubqueryExpr (Inr np)) vAll erw))) =
      Some [NewAggFuncDesc
              (if ((vOp = opLT \<or> vOp = opLE) \<and> vAll) \<or> ((vOp = opGT \<or> vOp = opGE) \<and> \<not> vAll)
               then AggFuncMin else AggFuncMax) [Column col] False,
            NewAggFuncDesc AggFuncSum [ScalarFunction IsNull (NewFieldType TypeTiny) [Column col]] False,
            NewAggFuncDesc AggFuncCount [One] False]
    \<and> map_option comparisonOf
        (quantifierCondition (er_p (handleCompareSubquery visitL vOp (SubqueryExpr (Inr np)) vAll erw))) =
      Some (ScalarFunction (opString vOp) (NewFieldType TypeTiny)
              [lexpr, Column (newColumn ''agg_Col_0'' (ctx_PlanColumnID (visitL erw) + 1) (RetType col))])"
proof -
  let ?er = "visitL erw"
  let ?useMin = "((vOp = opLT \<or> vOp = opLE) \<and> vAll) \<or> ((vOp = opGT \<or> vOp = opGE) \<and> \<not> vAll)"
  let ?h = "handleOtherComparableSubq lexpr (Column col) np ?useMin (opString vOp) vAll ?er"
  have h: "handleCompareSubquery visitL vOp (SubqueryExpr (Inr np)) vAll erw = useLastColumn ?h"
    using op noerr stack scalar onecol
    by (auto simp add: handleCompareSubquery_def Let_def buildSubquery_def subqueryOperand_def)
  have e: "er_err (useLastColumn ?h) = None"
    using noerr stack by (subst useLastColumn_err) (auto simp: hocs_facts)
  have cmp: "comparisonOf (ScalarFunction (opString vOp) (NewFieldType TypeTiny) [lexpr, x]) =
      ScalarFunction (opString vOp) (NewFieldType TypeTiny) [lexpr, x]" for x
    using op by (auto simp: funcName_defs)
  show ?thesis
    unfolding h useLastColumn_p quantifierAggregation_def quantifierCondition_def
    using e op
    by (auto simp add: hocs_plan ComposeCNFCondition_def ComposeDNFCondition_def compose2 compose3
        funcName_defs)
qed

text \<open>
  C2, witness: 5 > ALL (subquery with the column a) aggregates by MAX.
\<close>

theorem compare_subquery_aggregate_witness:
  "er_err (handleCompareSubquery (visitValueExpr (DInt 5) (NewFieldType TypeLonglong)) opGT
      (SubqueryExpr (Inr exSubquery)) True exRewriter) = None
   \<and> map_option (map Name \<circ> planAggFuncs)
        (quantifierAggregation (er_p (handleCompareSubquery (visitValueExpr (DInt 5) (NewFieldType TypeLonglong))
           opGT (SubqueryExpr (Inr exSubquery)) True exRewriter))) =
      Some [AggFuncMax, AggFuncSum, AggFuncCount]
   \<and> map_option comparisonOf
        (quantifierCondition (er_p (handleCompareSubquery (visitValueExpr (DInt 5) (NewFieldType TypeLonglong))
           opGT (SubqueryExpr (Inr exSubquery)) True exRewriter))) =
      Some (ScalarFunction GT (NewFieldType TypeTiny)
              [exFive, Column (newColumn ''agg_Col_0'' 2 (NewFieldType TypeLonglong))])"
proof -
  have a: "opGT = opLT \<or> opGT = opLE \<or> opGT = opGT \<or> opGT = opGE" by simp
  have b: "er_err (visitValueExpr (DInt 5) (NewFieldType TypeLonglong) exRewriter) = None"
    by (simp add: visitValueExpr_def exRewriter_def)
  have c: "er_ctxStack (visitValueExpr (DInt 5) (NewFieldType TypeLonglong) exRewriter) = [] @ [exFive]"
    by (simp add: visitValueExpr_def exRewriter_def exFive_def)
  have d: "GetRowLen exFive = 1" by (simp add: exFive_def)
  have e: "Schema exSubquery = [exSubqueryColumn]" by (simp add: exSubquery_def)
  have n: "ctx_PlanColumnID (visitValueExpr (DInt 5) (NewFieldType TypeLonglong) exRewriter) = 1"
    by (simp add: visitValueExpr_def exRewriter_def)
  show ?thesis
    using compare_subquery_aggregate [where visitL = "visitValueExpr (DInt 5) (NewFieldType TypeLonglong)"
        and erw = exRewriter and vOp = opGT and stk = "[]" and lexpr = exFive and np = exSubquery
        and col = exSubqueryColumn and vAll = True, OF a b c d e]
    by (auto simp add: n NewAggFuncDesc_def exSubqueryColumn_def newColumn_def)
qed

subsection \<open>Not equal to any\<close>

text \<open>
  C3. For a comparison \<open>a != ANY (subq)\<close>, handleNEAny aggregates the subquery by
  first_row and count(distinct) (beside the sum of the is-null flags and the count), and
  the condition it hands to buildQuantifierPlan, which stands in the plan below the
  checks for NULL and for the empty subquery, is true on a row of the aggregation
  exactly when the count of distinct values \<open>k\<close> is more than one or the first row and
  \<open>a\<close> are two different values.
\<close>

theorem ne_any_condition:
  assumes cnt: "row (ctx_PlanColumnID er + 2) = DInt k"
  shows "quantifierPlan (er_p (handleNEAny lexpr rexpr np er)) =
     Some (LogicalAggregation
             [NewAggFuncDesc AggFuncFirstRow [rexpr] False,
              NewAggFuncDesc AggFuncCount [rexpr] True,
              NewAggFuncDesc AggFuncSum [ScalarFunction IsNull (NewFieldType TypeTiny) [rexpr]] False,
              NewAggFuncDesc AggFuncCount [One] False]
             []
             [newColumn ''col_firstRow'' (ctx_PlanColumnID er + 1) (GetType rexpr),
              newColumn ''col_count'' (ctx_PlanColumnID er + 2) (NewFieldType TypeLonglong),
              newColumn ''agg_col_sum'' (ctx_PlanColumnID er + 3) (NewFieldType TypeNewDecimal),
              newColumn ''agg_col_cnt'' (ctx_PlanColumnID er + 4) (NewFieldType TypeLonglong)]
             np,
           ComposeCNFCondition
             [ComposeDNFCondition
                [ComposeDNFCondition
                   [ScalarFunction GT (NewFieldType TypeTiny)
                      [Column (newColumn ''col_count'' (ctx_PlanColumnID er + 2) (NewFieldType TypeLonglong)), One],
                    ScalarFunction NE (NewFieldType TypeTiny)
                      [lexpr, Column (newColumn ''col_firstRow'' (ctx_PlanColumnID er + 1) (GetType rexpr))]],
                 ScalarFunction IfFunc (NewFieldType TypeTiny)
                   [ScalarFunction NE (NewFieldType TypeTiny)
                      [Column (newColumn ''agg_col_sum'' (ctx_PlanColumnID er + 3) (NewFieldType TypeNewDecimal)), Zero],
                    Null, Zero]],
              ScalarFunction NE (NewFieldType TypeTiny)
                [Column (newColumn ''agg_col_cnt'' (ctx_PlanColumnID er + 4) (NewFieldType TypeLonglong)), Zero],
              ScalarFunction IfFunc (NewFieldType TypeTiny)
                [ScalarFunction IsNull (NewFieldType TypeTiny) [lexpr], Null, One]])
   \<and> isTrue (Eval row
        (ComposeDNFCondition
           [ScalarFunction GT (NewFieldType TypeTiny)
              [Column (newColumn ''col_count'' (ctx_PlanColumnID er + 2) (NewFieldType TypeLonglong)), One],
            ScalarFunction NE (NewFieldType TypeTiny)
              [lexpr, Column (newColumn ''col_firstRow'' (ctx_PlanColumnID er + 1) (GetType rexpr))]])) =
      (1 < k \<or> (\<exists>x y. Eval row lexpr = DInt x \<and> row (ctx_PlanColumnID er + 1) = DInt y \<and> x \<noteq> y))"
  using cnt
  by (simp add: hneany_plan ComposeDNFCondition_def compose2 evalBuiltin_simps newColumn_def
      One_def ne_any_value)

text \<open>
  C3, witness: 5 != ANY over the subquery {7} is true.
\<close>

theorem ne_any_condition_witness:
  "exRowOfSeven (ctx_PlanColumnID exRewriter + 2) = DInt 1
   \<and> isTrue (Eval exRowOfSeven
        (ComposeDNFCondition
           [ScalarFunction GT (NewFieldType TypeTiny)
              [Column (newColumn ''col_count'' 3 (NewFieldType TypeLonglong)), One],
            ScalarFunction NE (NewFieldType TypeTiny)
              [exFive, Column (newColumn ''col_firstRow'' 2 (NewFieldType TypeLonglong))]]))"
  using ne_any_condition [where row = exRowOfSeven and er = exRewriter and k = 1
      and lexpr = exFive and rexpr = "Column exSubqueryColumn" and np = exSubquery]
  by (simp add: exRowOfSeven_def exRewriter_def exFive_def exSubqueryColumn_def newColumn_def
      eval_nat_numeral)

subsection \<open>IN with a subquery\<close>

text \<open>
  C4. When handleInSubquery raises no error, the plan it leaves is an inner join of the
  outer plan with the subquery deduplicated by DISTINCT if the IN is not negated, the
  context is not scalar, the session allows it and the subquery has no column correlated
  to the schema of the outer plan; in every other case it is an apply of a semi-join, of
  an anti-semi-join when the IN is negated (the kinds that also give the truth value,
  LeftOuterSemiJoin and AntiLeftOuterSemiJoin, in scalar context). In both cases the
  predicates of the join are the conjuncts of the equality of the left operand with the
  columns of the subquery.
\<close>

theorem in_subquery_plan:
  assumes ok: "er_err (handleInSubquery visitExpr (SubqueryExpr (Inr np0)) vNot erw) = None"
  shows "\<exists>checkCondition sch.
     constructBinaryOpFunction (last (er_ctxStack (visitExpr (erw\<lparr>er_asScalar := True\<rparr>))))
        (inSubqueryOperand (er_asScalar erw) vNot
           (last (er_ctxStack (visitExpr (erw\<lparr>er_asScalar := True\<rparr>)))) np0) EQ = Inr checkCondition
     \<and> er_p (handleInSubquery visitExpr (SubqueryExpr (Inr np0)) vNot erw) =
       (if ctx_AllowInSubqToJoinAndAgg (visitExpr (erw\<lparr>er_asScalar := True\<rparr>))
            \<and> \<not> vNot \<and> \<not> er_asScalar erw
            \<and> extractCorColumnsBySchema np0 (Schema (er_p (visitExpr (erw\<lparr>er_asScalar := True\<rparr>)))) = []
        then LogicalJoin InnerJoin (er_p (visitExpr (erw\<lparr>er_asScalar := True\<rparr>)))
               (distinctPlan np0) sch (SplitCNFItems checkCondition)
        else LogicalApply
               (if er_asScalar erw then (if vNot then AntiLeftOuterSemiJoin else LeftOuterSemiJoin)
                else (if vNot then AntiSemiJoin else SemiJoin))
               (er_p (visitExpr (erw\<lparr>er_asScalar := True\<rparr>)))
               (inSubqueryInner (er_asScalar erw) vNot
                  (last (er_ctxStack (visitExpr (erw\<lparr>er_asScalar := True\<rparr>)))) np0)
               sch (SplitCNFItems checkCondition))"
proof -
  let ?er = "visitExpr (erw\<lparr>er_asScalar := True\<rparr>)"
  let ?lexpr = "last (er_ctxStack ?er)"
  let ?as = "er_asScalar erw"
  from ok have e1: "er_err ?er = None"
    by (auto simp: handleInSubquery_def Let_def split: if_splits)
  from ok e1 have e2: "er_ctxStack ?er \<noteq> []"
    by (auto simp: handleInSubquery_def Let_def split: if_splits)
  from ok e1 e2 have e3: "GetRowLen ?lexpr = length (Schema np0)"
    by (auto simp: handleInSubquery_def Let_def buildSubquery_def split: if_splits)
  from ok e1 e2 e3 obtain rexpr0 where e4: "subqueryOperand np0 = Inr rexpr0"
    by (cases "subqueryOperand np0") (auto simp: handleInSubquery_def Let_def buildSubquery_def)
  have op: "(if length (Schema np0) = Suc 0 \<and> (vNot \<or> ?as)
             then (Column (markInOperand ?lexpr (Schema np0 ! 0)),
                   setFirstColumn (markInOperand ?lexpr (Schema np0 ! 0)) np0)
             else (rexpr0, np0)) =
            (inSubqueryOperand ?as vNot ?lexpr np0, inSubqueryInner ?as vNot ?lexpr np0)"
    using e4
    by (auto simp: inSubqueryOperand_def inSubqueryInner_def subqueryOperand_def newFunction_def
        split: if_splits list.splits)
  from ok e1 e2 e3 e4 obtain cc where
    e5: "constructBinaryOpFunction ?lexpr (inSubqueryOperand ?as vNot ?lexpr np0) EQ = Inr cc"
    by (cases "constructBinaryOpFunction ?lexpr (inSubqueryOperand ?as vNot ?lexpr np0) EQ")
       (auto simp: handleInSubquery_def Let_def buildSubquery_def op)
  have inner: "inSubqueryInner False False ?lexpr np0 = np0"
    by (simp add: inSubqueryInner_def)
  show ?thesis
    using e1 e2 e3 e4 e5
    by (auto simp: handleInSubquery_def Let_def buildSubquery_def op buildSemiApply_def
        AllocPlanColumnID_def buildDistinct_def aggPlan_def distinctPlan_def zip_map_same inner
        split: prod.splits)
qed

text \<open>
  C4, witness: 5 IN (subquery with the column a), not negated and not in scalar
  context, becomes an inner join with the deduplicated subquery.
\<close>

theorem in_subquery_plan_witness:
  "er_err (handleInSubquery (visitValueExpr (DInt 5) (NewFieldType TypeLonglong))
             (SubqueryExpr (Inr exSubquery)) False exRewriter) = None
   \<and> (\<exists>checkCondition sch.
        constructBinaryOpFunction exFive (Column exSubqueryColumn) EQ = Inr checkCondition
        \<and> er_p (handleInSubquery (visitValueExpr (DInt 5) (NewFieldType TypeLonglong))
                  (SubqueryExpr (Inr exSubquery)) False exRewriter)
            = LogicalJoin InnerJoin exOuterPlan (distinctPlan exSubquery) sch
                (SplitCNFItems checkCondition))"
proof -
  have ok: "er_err (handleInSubquery (visitValueExpr (DInt 5) (NewFieldType TypeLonglong))
             (SubqueryExpr (Inr exSubquery)) False exRewriter) = None"
    by (simp add: handleInSubquery_def visitValueExpr_def exRewriter_def
      exSubquery_def exSubqueryColumn_def exOuterPlan_def newColumn_def Let_def
      buildSubquery_def subqueryOperand_def
      constructBinaryOpFunction.simps newFunction_def NewFunctionInternal_def
      extractCorColumnsBySchema_def buildDistinct_def funcName_defs)
  have v: "visitValueExpr (DInt 5) (NewFieldType TypeLonglong) (exRewriter\<lparr>er_asScalar := True\<rparr>)
           = exRewriter\<lparr>er_asScalar := True, er_ctxStack := [exFive]\<rparr>"
    by (simp add: visitValueExpr_def exRewriter_def exFive_def)
  have f: "er_asScalar exRewriter = False"
    "ctx_AllowInSubqToJoinAndAgg exRewriter = True"
    "er_p exRewriter = exOuterPlan"
    "extractCorColumnsBySchema exSubquery (Schema exOuterPlan) = []"
    "inSubqueryOperand False False exFive exSubquery = Column exSubqueryColumn"
    by (simp_all add: exRewriter_def exOuterPlan_def exSubquery_def extractCorColumnsBySchema_def
        inSubqueryOperand_def)
  show ?thesis
    using in_subquery_plan [OF ok] ok unfolding v
    by (simp add: f)
qed

subsection \<open>The result of a rewrite\<close>

text \<open>
  C6, as amended. When rewriteExprNode returns without an error, the traversal raised
  none and the plan is the rewriter's; the stack holds exactly one expression, of width
  1, which is returned, or the caller did not ask for a scalar, the stack is empty and
  the expression returned is nil. When the traversal raised no error and the stack holds
  no or several expressions, unless it holds none and no scalar was asked for, the
  result is the error of a wrong stack depth.
\<close>

theorem rewriteExprNode_result:
  "(rewriteExprNode accept asScalar er = Inr (e, pl) \<longrightarrow>
      er_err (accept er) = None \<and> pl = er_p (accept er) \<and>
      ((\<exists>x. er_ctxStack (accept er) = [x] \<and> e = Some x \<and> GetRowLen x = 1)
       \<or> (\<not> asScalar \<and> er_ctxStack (accept er) = [] \<and> e = None)))
   \<and> (er_err (accept er) = None \<and> length (er_ctxStack (accept er)) \<noteq> 1
        \<and> (asScalar \<or> er_ctxStack (accept er) \<noteq> []) \<longrightarrow>
      rewriteExprNode accept asScalar er = Inl (ErrContextLen (length (er_ctxStack (accept er)))))"
  by (cases "er_ctxStack (accept er)"; cases "tl (er_ctxStack (accept er))")
     (auto simp add: rewriteExprNode_def Let_def CheckArgsNotMultiColumnRow_def
        split: option.splits if_splits)

text \<open>
  C6, witness: the literal 5 is rewritten to itself; a traversal that pushes nothing,
  when a scalar is asked for, gives the error of the stack depth 0.
\<close>

theorem rewriteExprNode_result_witness:
  "rewriteExprNode (visitValueExpr (DInt 5) (NewFieldType TypeLonglong)) True exRewriter
     = Inr (Some exFive, exOuterPlan)
   \<and> er_ctxStack (visitValueExpr (DInt 5) (NewFieldType TypeLonglong) exRewriter) = [exFive]
   \<and> er_err (id exRewriter) = None
   \<and> length (er_ctxStack (id exRewriter)) = 0
   \<and> rewriteExprNode id True exRewriter = Inl (ErrContextLen 0)"
  using rewriteExprNode_result [of "visitValueExpr (DInt 5) (NewFieldType TypeLonglong)" True
      exRewriter "Some exFive" exOuterPlan]
    rewriteExprNode_result [of id True exRewriter None exOuterPlan]
  by (simp add: rewriteExprNode_def visitValueExpr_def exRewriter_def exFive_def Let_def
      CheckArgsNotMultiColumnRow_def)

text \<open>
  C6, counterexample to the claim as stated: the rewrite of 5 IN (subquery), not in
  scalar context, completes without an error, leaves an empty stack and returns no
  expression.
\<close>

theorem in_subquery_without_expression_counterexample:
  "map_sum id fst
     (rewriteExprNode
        (handleInSubquery (visitValueExpr (DInt 5) (NewFieldType TypeLonglong))
           (SubqueryExpr (Inr exSubquery)) False)
        False exRewriter) = Inr None
   \<and> er_err (handleInSubquery (visitValueExpr (DInt 5) (NewFieldType TypeLonglong))
               (SubqueryExpr (Inr exSubquery)) False exRewriter) = None
   \<and> er_ctxStack (handleInSubquery (visitValueExpr (DInt 5) (NewFieldType TypeLonglong))
                    (SubqueryExpr (Inr exSubquery)) False exRewriter) = []"
  by (simp add: rewriteExprNode_def handleInSubquery_def visitValueExpr_def exRewriter_def
      exSubquery_def exSubqueryColumn_def exOuterPlan_def newColumn_def Let_def
      buildSubquery_def subqueryOperand_def
      constructBinaryOpFunction.simps newFunction_def NewFunctionInternal_def
      extractCorColumnsBySchema_def buildDistinct_def funcName_defs)

subsection \<open>IN with a list\<close>

text \<open>
  C9, as amended. For an IN with a list, negated or not, inToExpression first compares
  the width of every list element with the width of the left operand. When they all
  agree and the left operand has the NULL type, it replaces the operands on the stack by
  the constant NULL, whatever the elements, the negation, the refinement of constants
  and the comparison types are. When a list element has another width, it ends with the
  operand-columns error for the width of the left operand and leaves the stack as it
  is, whatever the type of the left operand is.
\<close>

theorem in_null_left:
  assumes stack: "er_ctxStack er = rest @ left # list"
    and len: "length list = lLen"
  shows "(Tp (GetType left) = TypeNull \<and> (\<forall>e\<in>set list. GetRowLen e = GetRowLen left) \<longrightarrow>
            inToExpression refine cmpType lLen not' tp er = er\<lparr>er_ctxStack := rest @ [Null]\<rparr>)
       \<and> ((\<exists>e\<in>set list. GetRowLen e \<noteq> GetRowLen left) \<longrightarrow>
            inToExpression refine cmpType lLen not' tp er =
              er\<lparr>er_err := Some (ErrOperandColumns (GetRowLen left))\<rparr>)"
proof -
  have a: "length (er_ctxStack er) - lLen - 1 = length rest" using stack len by simp
  have b: "er_ctxStack er ! length rest = left" using stack by (simp add: nth_append)
  have c: "\<And>i. i < lLen \<Longrightarrow> er_ctxStack er ! (length (er_ctxStack er) - lLen + i) = list ! i"
    using stack len by (simp add: nth_append)
  have d: "(\<exists>i\<in>set [0..<lLen]. GetRowLen left \<noteq> GetRowLen (er_ctxStack er ! (length (er_ctxStack er) - lLen + i)))
           = (\<exists>e\<in>set list. GetRowLen e \<noteq> GetRowLen left)"
  proof
    assume "\<exists>i\<in>set [0..<lLen]. GetRowLen left \<noteq> GetRowLen (er_ctxStack er ! (length (er_ctxStack er) - lLen + i))"
    then obtain i where "i < lLen" and "GetRowLen left \<noteq> GetRowLen (list ! i)"
      using c by auto
    then show "\<exists>e\<in>set list. GetRowLen e \<noteq> GetRowLen left"
      using len by (intro bexI [of _ "list ! i"]) auto
  next
    assume "\<exists>e\<in>set list. GetRowLen e \<noteq> GetRowLen left"
    then obtain i where "i < lLen" and "GetRowLen (list ! i) \<noteq> GetRowLen left"
      using len by (auto simp: in_set_conv_nth)
    then show "\<exists>i\<in>set [0..<lLen]. GetRowLen left \<noteq> GetRowLen (er_ctxStack er ! (length (er_ctxStack er) - lLen + i))"
      using c by (intro bexI [of _ i]) auto
  qed
  have e: "drop (length rest) (er_ctxStack er) = left # list" using stack by simp
  have f: "take (length rest) (er_ctxStack er) = rest" using stack by simp
  have g: "\<not> length (er_ctxStack er) < lLen + 1" using stack len by simp
  show ?thesis
    unfolding inToExpression_def Let_def a b d
    using g by (auto simp add: e f)
qed

text \<open>
  C9, witness: NULL NOT IN (5) is rewritten to the constant NULL; NULL NOT IN ((1, 2))
  ends with the operand-columns error.
\<close>

theorem in_null_left_witness:
  "er_ctxStack exNullInFive = [] @ Constant DNull (NewFieldType TypeNull) # [exFive]
   \<and> Tp (GetType (Constant DNull (NewFieldType TypeNull))) = TypeNull
   \<and> inToExpression exRefine exCmpType 1 True (NewFieldType TypeTiny) exNullInFive
       = exNullInFive\<lparr>er_ctxStack := [Null]\<rparr>
   \<and> er_ctxStack exNullInRow = [] @ Constant DNull (NewFieldType TypeNull)
        # [ScalarFunction RowFunc (NewFieldType TypeLonglong) exOneTwo]
   \<and> inToExpression exRefine exCmpType 1 True (NewFieldType TypeTiny) exNullInRow
       = exNullInRow\<lparr>er_err := Some (ErrOperandColumns 1)\<rparr>"
  using in_null_left [where er = exNullInFive and rest = "[]"
      and left = "Constant DNull (NewFieldType TypeNull)" and list = "[exFive]" and lLen = 1
      and refine = exRefine and cmpType = exCmpType and not' = True
      and tp = "NewFieldType TypeTiny"]
    in_null_left [where er = exNullInRow and rest = "[]"
      and left = "Constant DNull (NewFieldType TypeNull)"
      and list = "[ScalarFunction RowFunc (NewFieldType TypeLonglong) exOneTwo]" and lLen = 1
      and refine = exRefine and cmpType = exCmpType and not' = True
      and tp = "NewFieldType TypeTiny"]
  by (simp add: exNullInFive_def exNullInRow_def exFive_def exOneTwo_def NewFieldType_def)

text \<open>
  C9, counterexample to the claim as stated: for NULL IN ((1, 2)) the left operand has
  the NULL type, but the widths are compared first and the rewrite ends with the
  operand-columns error, the stack unchanged.
\<close>

theorem in_null_left_row_counterexample:
  "Tp (GetType (er_ctxStack exNullInRow ! 0)) = TypeNull
   \<and> inToExpression exRefine exCmpType 1 False (NewFieldType TypeTiny) exNullInRow
       = exNullInRow\<lparr>er_err := Some (ErrOperandColumns 1)\<rparr>"
  by (simp add: inToExpression_def exNullInRow_def exRewriter_def exOneTwo_def Let_def
      NewFieldType_def funcName_defs)

subsection \<open>IFNULL of a column that is never NULL\<close>

text \<open>
  C10. For a call IFNULL(x, y) with two arguments where x is a column whose type has the
  NOT NULL flag, rewriteFuncCall reports a rewrite and replaces both operands on the
  stack by the column x, marked as referenced: no function node is built and y is
  dropped. So does funcCallToExpression when y has width 1.
\<close>

theorem ifnull_not_null_column:
  assumes stack: "er_ctxStack er = rest @ [Column col, y]"
    and notnull: "NotNullFlag (RetType col)"
  shows "rewriteFuncCall Ifnull 2 vType er =
      (True, er\<lparr>er_ctxStack := rest @ [Column (col\<lparr>IsReferenced := True\<rparr>)]\<rparr>)
    \<and> (GetRowLen y = 1 \<longrightarrow>
        funcCallToExpression deferred Ifnull 2 vType er =
          er\<lparr>er_ctxStack := rest @ [Column (col\<lparr>IsReferenced := True\<rparr>)]\<rparr>)"
proof -
  have r: "rewriteFuncCall Ifnull 2 vType er =
      (True, er\<lparr>er_ctxStack := rest @ [Column (col\<lparr>IsReferenced := True\<rparr>)]\<rparr>)"
    using stack notnull by (simp add: rewriteFuncCall_def nth_append)
  have "GetRowLen y = 1 \<Longrightarrow> CheckArgsNotMultiColumnRow (drop (length (er_ctxStack er) - 2) (er_ctxStack er)) = None"
    using stack by (simp add: CheckArgsNotMultiColumnRow_def)
  with r stack show ?thesis
    by (simp add: funcCallToExpression_def Let_def)
qed

text \<open>
  C10, witness: IFNULL(id, 5) for a column id that is NOT NULL becomes the column id.
\<close>

theorem ifnull_not_null_column_witness:
  "er_ctxStack exIfnullCall = [] @ [Column exNotNullColumn, exFive]
   \<and> NotNullFlag (RetType exNotNullColumn)
   \<and> GetRowLen exFive = 1
   \<and> rewriteFuncCall Ifnull 2 (NewFieldType TypeLonglong) exIfnullCall
       = (True, exIfnullCall\<lparr>er_ctxStack := [Column (exNotNullColumn\<lparr>IsReferenced := True\<rparr>)]\<rparr>)
   \<and> funcCallToExpression False Ifnull 2 (NewFieldType TypeLonglong) exIfnullCall
       = exIfnullCall\<lparr>er_ctxStack := [Column (exNotNullColumn\<lparr>IsReferenced := True\<rparr>)]\<rparr>"
  using ifnull_not_null_column [where er = exIfnullCall and rest = "[]" and col = exNotNullColumn
      and y = exFive and vType = "NewFieldType TypeLonglong" and deferred = False]
  by (simp add: exIfnullCall_def exNotNullColumn_def newColumn_def exFive_def)

end
